theory Spec2Isabelle
  imports Main "HOL-Library.Char_ord" "HOL-Library.List_Lexorder" "HOL-Library.Sublist"
begin

section \<open>Common types\<close>

text \<open>
  A Go \<open>error\<close> built by \<open>fmt.Errorf(format, args...)\<close> is kept as the format
  string with its arguments (strings and wrapped errors), unformatted. Errors that come
  from outside (the operating system, the JSON encoder) are values of the same type.
  \<open>fi.Lifecycle\<close> is a Go string type; a \<open>*string\<close> is a \<open>string option\<close>.
\<close>

datatype error = Errorf string "fmtarg list"
  and fmtarg = ArgString string | ArgError error

type_synonym lifecycle = string

definition fi_String :: "string \<Rightarrow> string option" where
  "fi_String s = Some s"

definition fi_Bool :: "bool \<Rightarrow> bool option" where
  "fi_Bool v = Some v"

definition fi_StringValue :: "string option \<Rightarrow> string" where
  "fi_StringValue s = (case s of None \<Rightarrow> [] | Some v \<Rightarrow> v)"

definition fi_BoolValue :: "bool option \<Rightarrow> bool" where
  "fi_BoolValue v = (case v of None \<Rightarrow> False | Some b \<Rightarrow> b)"

text \<open>
  A Go map is a partial function. \<open>for k, v := range m\<close> visits every key once, in an
  order the runtime chooses: the order is an argument, a list of keys, and the pairs
  visited are those of its keys that the map holds.
\<close>

definition go_range :: "('k \<rightharpoonup> 'v) \<Rightarrow> 'k list \<Rightarrow> ('k \<times> 'v) list" where
  "go_range m order = List.map_filter (\<lambda>k. map_option (Pair k) (m k)) order"

definition range_order :: "('k \<rightharpoonup> 'v) \<Rightarrow> 'k list \<Rightarrow> bool" where
  "range_order m order = (distinct order \<and> set order = dom m)"

section \<open>kops API types\<close>

text \<open>
  The cluster specification, with the fields that the code below reads. \<open>SubnetType\<close>
  is a Go string type; its three named values, \<open>EgressExternal\<close> and
  \<open>TopologyPublic\<close> are the constants of the API package. \<open>Spec.Topology\<close> is a
  pointer that the network builder dereferences without a test: it is taken as set.
\<close>

type_synonym SubnetType = string

definition SubnetTypePublic :: SubnetType where
  "SubnetTypePublic = ''Public''"

definition SubnetTypePrivate :: SubnetType where
  "SubnetTypePrivate = ''Private''"

definition SubnetTypeUtility :: SubnetType where
  "SubnetTypeUtility = ''Utility''"

definition EgressExternal :: string where
  "EgressExternal = ''External''"

definition TopologyPublic :: string where
  "TopologyPublic = ''public''"

record ClusterSubnetSpec =
  Name :: string
  Zone :: string
  CIDR :: string
  IPv6CIDR :: string
  ProviderID :: string
  Egress :: string
  Type :: SubnetType
  PublicIP :: string

record TopologySpec =
  Nodes :: string

record EtcdMemberSpec =
  KmsKeyId :: "string option"

record EtcdClusterSpec =
  Members :: "EtcdMemberSpec list"

record ClusterSpec =
  NetworkID :: string
  NetworkCIDR :: string
  AdditionalNetworkCIDRs :: "string list"
  Subnets :: "ClusterSubnetSpec list"
  DisableSubnetTags :: bool
  Topology :: TopologySpec
  EtcdClusters :: "EtcdClusterSpec list"

record Cluster =
  Spec :: ClusterSpec

section \<open>gcetasks.ForwardingRule: the generated lifecycle accessors\<close>

text \<open>
  The struct declaration of \<open>ForwardingRule\<close> is outside the sources at hand; the
  generated accessors only touch \<open>Name\<close> and \<open>Lifecycle\<close>. Every other field of
  the struct lives in the extension part of the record (\<open>ForwardingRule.more\<close>).
\<close>

record ForwardingRule =
  Name :: "string option"
  Lifecycle :: lifecycle

definition GetLifecycle :: "'a ForwardingRule_scheme \<Rightarrow> lifecycle" where
  "GetLifecycle o' = ForwardingRule.Lifecycle o'"

definition SetLifecycle :: "lifecycle \<Rightarrow> 'a ForwardingRule_scheme \<Rightarrow> 'a ForwardingRule_scheme" where
  "SetLifecycle lifecycle o' = o'\<lparr>ForwardingRule.Lifecycle := lifecycle\<rparr>"

definition GetName :: "'a ForwardingRule_scheme \<Rightarrow> string option" where
  "GetName o' = ForwardingRule.Name o'"

section \<open>terraform.TerraformTarget\<close>

text \<open>
  \<open>kops.TargetSpec\<close> as \<open>tfGetProviderExtraConfig\<close> reads it: two nested
  pointers and a pointer to a map.
\<close>

record TerraformSpec =
  ProviderExtraConfig :: "(string \<rightharpoonup> string) option"

record TargetSpec =
  Terraform :: "TerraformSpec option"

text \<open>
  The target embeds \<open>terraformWriter.TerraformWriter\<close>, of which \<open>Finish\<close> reads the
  \<open>Files\<close> map (relative path to contents). \<open>fi.Cloud\<close> is an interface: a type
  parameter.
\<close>

record 'cloud TerraformTarget =
  Files :: "string \<rightharpoonup> string"
  Cloud :: 'cloud
  Project :: string
  ClusterName :: string
  outDir :: string
  clusterSpecTarget :: "TargetSpec option"

definition ProcessDeletions :: "'cloud TerraformTarget \<Rightarrow> bool" where
  \<comment> \<open>Terraform tracks and performs deletions itself\<close>
  "ProcessDeletions t = False"

definition tfGetProviderExtraConfig :: "TargetSpec option \<Rightarrow> (string \<rightharpoonup> string) option" where
  "tfGetProviderExtraConfig c =
     (case c of
        None \<Rightarrow> None
      | Some c' \<Rightarrow>
          (case Terraform c' of
             None \<Rightarrow> None
           | Some tf \<Rightarrow>
               (case ProviderExtraConfig tf of
                  None \<Rightarrow> None
                | Some m \<Rightarrow> Some m)))"

text \<open>
  The operating system, as \<open>Finish\<close> uses it: \<open>os.MkdirAll(dir, perm)\<close> and
  \<open>ioutil.WriteFile(path, contents, perm)\<close>. The calls made are logged in order; whether
  a call fails is decided by the environment from the calls made before it and the call.
\<close>

datatype os_call = MkdirAll string nat | WriteFile string string nat

definition mode_0755 :: nat where
  \<comment> \<open>\<open>os.FileMode(0755)\<close>, the literal is octal\<close>
  "mode_0755 = 7 * 64 + 5 * 8 + 5"

definition mode_0644 :: nat where
  \<comment> \<open>\<open>os.FileMode(0644)\<close>\<close>
  "mode_0644 = 6 * 64 + 4 * 8 + 4"

text \<open>
  What \<open>Finish\<close> takes from outside this file: the feature flag, the two renderers of
  the terraform document (methods of the target defined elsewhere; they may change the
  target, for one by adding the document to \<open>Files\<close>), \<open>path.Join\<close> and \<open>path.Dir\<close>
  of the standard library, the order in which the runtime ranges over \<open>Files\<close>, and the
  operating system.
\<close>

record 'cloud finish_env =
  TerraformJSON_Enabled :: bool
  finishJSON :: "'cloud TerraformTarget \<Rightarrow> error option \<times> 'cloud TerraformTarget"
  finishHCL2 :: "'cloud TerraformTarget \<Rightarrow> error option \<times> 'cloud TerraformTarget"
  path_Join :: "string \<Rightarrow> string \<Rightarrow> string"
  path_Dir :: "string \<Rightarrow> string"
  files_order :: "(string \<rightharpoonup> string) \<Rightarrow> string list"
  os_result :: "os_call list \<Rightarrow> os_call \<Rightarrow> error option"

text \<open>The body of the loop over \<open>t.Files\<close>, run on the pairs still to visit.\<close>

fun write_files ::
  "'cloud finish_env \<Rightarrow> string \<Rightarrow> os_call list \<Rightarrow> (string \<times> string) list
    \<Rightarrow> error option \<times> os_call list" where
  "write_files E out log [] = (None, log)"
| "write_files E out log ((relativePath, contents) # rest) =
     (let p = path_Join E out relativePath;
          mk = MkdirAll (path_Dir E p) mode_0755
      in case os_result E log mk of
           Some err \<Rightarrow>
             (Some (Errorf ''error creating output directory %q: %v''
                      [ArgString (path_Dir E p), ArgError err]), log @ [mk])
         | None \<Rightarrow>
             (let wr = WriteFile p contents mode_0644
              in case os_result E (log @ [mk]) wr of
                   Some err \<Rightarrow>
                     (Some (Errorf ''error writing terraform data to output file %q: %v''
                              [ArgString p, ArgError err]), log @ [mk, wr])
                 | None \<Rightarrow> write_files E out (log @ [mk, wr]) rest))"

text \<open>
  \<open>Finish\<close> returns the error, the target as the renderer left it, and the log of the
  operating system calls it made. The task map it is given is not read.
\<close>

definition Finish ::
  "'cloud finish_env \<Rightarrow> 'cloud TerraformTarget \<Rightarrow> 'tasks
    \<Rightarrow> error option \<times> 'cloud TerraformTarget \<times> os_call list" where
  "Finish E t taskMap =
     (let (err, t') = (if TerraformJSON_Enabled E then finishJSON E t else finishHCL2 E t)
      in case err of
           Some e \<Rightarrow> (Some e, t', [])
         | None \<Rightarrow>
             (let (err', log) =
                    write_files E (outDir t') [] (go_range (Files t') (files_order E (Files t')))
              in (err', t', log)))"

text \<open>
  The calls \<open>Finish\<close> has to make for one file, and for the files in the order visited:
  the directory of the joined path is created, then the file is written there.
\<close>

definition file_calls :: "'cloud finish_env \<Rightarrow> string \<Rightarrow> string \<times> string \<Rightarrow> os_call list" where
  "file_calls E out kv =
     [MkdirAll (path_Dir E (path_Join E out (fst kv))) mode_0755,
      WriteFile (path_Join E out (fst kv)) (snd kv) mode_0644]"

definition planned_calls ::
  "'cloud finish_env \<Rightarrow> string \<Rightarrow> (string \<times> string) list \<Rightarrow> os_call list" where
  "planned_calls E out kvs = concat (map (file_calls E out) kvs)"

section \<open>iam: policy documents\<close>

subsection \<open>Data\<close>

text \<open>
  \<open>StatementEffect\<close> is a Go string type with two named values. \<open>Condition\<close> is
  \<open>map[string]interface{}\<close>, kept as the list of its entries (the keys are distinct,
  the order carries no meaning; its \<open>len\<close> is the length of the list). The values
  this file stores in it are string maps, maps of further values and string slices;
  \<open>AnyOther\<close> stands for any other Go value.
\<close>

type_synonym StatementEffect = string

definition StatementEffectAllow :: StatementEffect where
  "StatementEffectAllow = ''Allow''"

definition StatementEffectDeny :: StatementEffect where
  "StatementEffectDeny = ''Deny''"

definition PolicyDefaultVersion :: string where
  "PolicyDefaultVersion = ''2012-10-17''"

datatype go_any =
    AnyString string
  | AnyStrings "string list"
  | AnyStringMap "(string \<times> string) list"
  | AnyMap "(string \<times> go_any) list"
  | AnyOther nat

type_synonym Condition = "(string \<times> go_any) list"

record Principal =
  Federated :: string
  Service :: string

text \<open>
  \<open>stringorslice.StringOrSlice\<close> is declared in another package: its values are of a
  type parameter \<open>'sos\<close>, and its operations are taken from the environment below.
\<close>

record 'sos Statement =
  Effect :: StatementEffect
  Principal :: Principal
  Action :: 'sos
  Resource :: 'sos
  Condition :: Condition

text \<open>
  \<open>sets.String\<close> is a finite set of strings; its \<open>List()\<close> is the sorted list of the
  members. \<open>[]*Statement\<close> is the list of the statements pointed to.
\<close>

record 'sos Policy =
  clusterName :: string
  unconditionalAction :: "string set"
  clusterTaggedAction :: "string set"
  Statement :: "'sos Statement list"
  Version :: string

definition sets_String_List :: "string set \<Rightarrow> string list" where
  "sets_String_List s = sorted_list_of_set s"

text \<open>The arguments this file passes to \<open>json.Marshal(v interface{})\<close>.\<close>

datatype 'sos json_arg =
    JString string
  | JEffect StatementEffect
  | JStringOrSlice 'sos
  | JCondition Condition
  | JPrincipal Principal

text \<open>
  The role of a policy builder is a value of the interface \<open>Subject\<close>. The builder
  reaches the role's own \<open>BuildAWSPolicy\<close> through the interface: what a role returns
  for a builder is taken from the environment.
\<close>

record 'role PolicyBuilder =
  Cluster :: Cluster
  HostedZoneID :: string
  KMSKeys :: "string list"
  Region :: string
  ResourceARN :: "string option"
  Role :: 'role
  UseServiceAccountIAM :: bool

text \<open>
  What the code modelled here takes from elsewhere: the constructors and the emptiness
  test of \<open>StringOrSlice\<close>, the JSON encoder of the standard library, and the policy
  each role builds.
\<close>

record ('sos, 'role) iam_env =
  stringorslice_Of :: "string list \<Rightarrow> 'sos"
  stringorslice_String :: "string \<Rightarrow> 'sos"
  stringorslice_IsEmpty :: "'sos \<Rightarrow> bool"
  json_Marshal :: "'sos json_arg \<Rightarrow> error + string"
  json_MarshalIndent :: "'sos Policy \<Rightarrow> string \<Rightarrow> string \<Rightarrow> error + string"
  Role_BuildAWSPolicy :: "'role \<Rightarrow> 'role PolicyBuilder \<Rightarrow> error + 'sos Policy option"

subsection \<open>Policy.AsJSON\<close>

text \<open>
  \<open>AsJSON\<close> appends to \<open>p.Statement\<close> before it encodes: it returns the result and
  the policy as it leaves it.
\<close>

definition AsJSON ::
  "('sos, 'role) iam_env \<Rightarrow> 'sos Policy \<Rightarrow> (error + string) \<times> 'sos Policy" where
  "AsJSON E p0 =
     (let p1 = (if unconditionalAction p0 \<noteq> {}
                then p0\<lparr>Statement := Statement p0 @
                       [\<lparr>Effect = StatementEffectAllow,
                         Principal = \<lparr>Federated = [], Service = []\<rparr>,
                         Action = stringorslice_Of E (sets_String_List (unconditionalAction p0)),
                         Resource = stringorslice_String E ''*'',
                         Condition = []\<rparr>]\<rparr>
                else p0);
          p2 = (if clusterTaggedAction p1 \<noteq> {}
                then p1\<lparr>Statement := Statement p1 @
                       [\<lparr>Effect = StatementEffectAllow,
                         Principal = \<lparr>Federated = [], Service = []\<rparr>,
                         Action = stringorslice_Of E (sets_String_List (clusterTaggedAction p1)),
                         Resource = stringorslice_String E ''*'',
                         Condition =
                           [(''StringEquals'',
                             AnyStringMap [(''aws:ResourceTag/KubernetesCluster'', clusterName p1)])]\<rparr>]\<rparr>
                else p1)
      in case json_MarshalIndent E p2 [] ''  '' of
           Inl e \<Rightarrow> (Inl (Errorf ''error marshaling policy to JSON: %v'' [ArgError e]), p2)
         | Inr j \<Rightarrow> (Inr j, p2))"

definition NewPolicy :: "string \<Rightarrow> 'sos Policy" where
  "NewPolicy name =
     \<lparr>clusterName = name, unconditionalAction = {}, clusterTaggedAction = {},
      Statement = [], Version = PolicyDefaultVersion\<rparr>"

text \<open>
  The policy a bastion host gets: \<open>NodeRoleBastion.BuildAWSPolicy\<close>, given the name of
  the cluster of its builder.
\<close>

definition NodeRoleBastion_BuildAWSPolicy :: "string \<Rightarrow> 'sos Policy" where
  "NodeRoleBastion_BuildAWSPolicy name =
     (let p = NewPolicy name
      in p\<lparr>unconditionalAction := insert ''ec2:DescribeRegions'' (unconditionalAction p)\<rparr>)"

subsection \<open>jsonWriter and Statement.MarshalJSON\<close>

text \<open>
  The writer keeps an \<open>io.Writer\<close> and the first error met. The \<open>io.Writer\<close> is a state
  \<open>'w\<close> with its \<open>Write\<close>; \<open>MarshalJSON\<close> uses a \<open>bytes.Buffer\<close>, whose \<open>Write\<close>
  appends and returns no error.
\<close>

record 'w jsonWriter =
  jw_w :: 'w
  jw_err :: "error option"

type_synonym 'w io_Write = "'w \<Rightarrow> string \<Rightarrow> error option \<times> 'w"

definition bytes_Buffer_Write :: "string io_Write" where
  "bytes_Buffer_Write buf b = (None, buf @ b)"

definition jw_Error :: "'w jsonWriter \<Rightarrow> error option" where
  "jw_Error j = jw_err j"

definition WriteLiteral :: "'w io_Write \<Rightarrow> string \<Rightarrow> 'w jsonWriter \<Rightarrow> 'w jsonWriter" where
  "WriteLiteral wr b j =
     (if jw_err j \<noteq> None then j
      else case wr (jw_w j) b of
             (None, w') \<Rightarrow> j\<lparr>jw_w := w'\<rparr>
           | (Some e, w') \<Rightarrow> j\<lparr>jw_w := w', jw_err := Some e\<rparr>)"

definition StartObject :: "'w io_Write \<Rightarrow> 'w jsonWriter \<Rightarrow> 'w jsonWriter" where
  "StartObject wr j = WriteLiteral wr ''{'' j"

definition EndObject :: "'w io_Write \<Rightarrow> 'w jsonWriter \<Rightarrow> 'w jsonWriter" where
  "EndObject wr j = WriteLiteral wr ''}'' j"

definition Comma :: "'w io_Write \<Rightarrow> 'w jsonWriter \<Rightarrow> 'w jsonWriter" where
  "Comma wr j = WriteLiteral wr '','' j"

definition Field ::
  "('sos, 'role) iam_env \<Rightarrow> 'w io_Write \<Rightarrow> string \<Rightarrow> 'w jsonWriter \<Rightarrow> 'w jsonWriter" where
  "Field E wr s j =
     (if jw_err j \<noteq> None then j
      else case json_Marshal E (JString s) of
             Inl e \<Rightarrow> j\<lparr>jw_err := Some e\<rparr>
           | Inr b \<Rightarrow> WriteLiteral wr '': '' (WriteLiteral wr b j))"

definition Marshal ::
  "('sos, 'role) iam_env \<Rightarrow> 'w io_Write \<Rightarrow> 'sos json_arg \<Rightarrow> 'w jsonWriter \<Rightarrow> 'w jsonWriter" where
  "Marshal E wr v j =
     (if jw_err j \<noteq> None then j
      else case json_Marshal E v of
             Inl e \<Rightarrow> j\<lparr>jw_err := Some e\<rparr>
           | Inr b \<Rightarrow> WriteLiteral wr b j)"

definition Principal_IsEmpty :: "Principal \<Rightarrow> bool" where
  "Principal_IsEmpty p = (p = \<lparr>Federated = [], Service = []\<rparr>)"

definition MarshalJSON ::
  "('sos, 'role) iam_env \<Rightarrow> 'sos Statement \<Rightarrow> string \<times> error option" where
  "MarshalJSON E s =
     (let wr = bytes_Buffer_Write;
          jw0 = \<lparr>jw_w = [], jw_err = None\<rparr>;
          jw1 = StartObject wr jw0;
          jw2 = (if \<not> stringorslice_IsEmpty E (Action s)
                 then Comma wr (Marshal E wr (JStringOrSlice (Action s)) (Field E wr ''Action'' jw1))
                 else jw1);
          jw3 = (if Condition s \<noteq> []
                 then Comma wr (Marshal E wr (JCondition (Condition s)) (Field E wr ''Condition'' jw2))
                 else jw2);
          jw4 = Marshal E wr (JEffect (Effect s)) (Field E wr ''Effect'' jw3);
          jw5 = (if \<not> Principal_IsEmpty (Principal s)
                 then Marshal E wr (JPrincipal (Principal s)) (Field E wr ''Principal'' (Comma wr jw4))
                 else jw4);
          jw6 = (if \<not> stringorslice_IsEmpty E (Resource s)
                 then Marshal E wr (JStringOrSlice (Resource s)) (Field E wr ''Resource'' (Comma wr jw5))
                 else jw5);
          jw7 = EndObject wr jw6
      in (jw_w jw7, jw_Error jw7))"

subsection \<open>PolicyBuilder and PolicyResource\<close>

text \<open>
  \<open>BuildAWSPolicy\<close> collects the KMS keys in use into the builder and asks the role for
  the policy; it returns the result and the builder as it leaves it.
\<close>

definition BuildAWSPolicy ::
  "('sos, 'role) iam_env \<Rightarrow> 'role PolicyBuilder
    \<Rightarrow> (error + 'sos Policy option) \<times> 'role PolicyBuilder" where
  "BuildAWSPolicy E b =
     (let b' = b\<lparr>KMSKeys := KMSKeys b @
                  concat (map (\<lambda>e. List.map_filter KmsKeyId (Members e)) (EtcdClusters (Spec (Cluster b))))\<rparr>
      in case Role_BuildAWSPolicy E (Role b') b' of
           Inl e \<Rightarrow> (Inl (Errorf ''failed to generate AWS IAM Policy: %v'' [ArgError e]), b')
         | Inr p \<Rightarrow> (Inr p, b'))"

text \<open>
  \<open>awstasks.DNSZone\<close> is a task of another package; \<open>Open\<close> reads its \<open>ZoneID\<close>.
  A policy resource holds its builder (\<open>Open\<close> dereferences it at once) and may hold
  a DNS zone.
\<close>

record DNSZone =
  Name :: "string option"
  ZoneID :: "string option"

record 'role PolicyResource =
  Builder :: "'role PolicyBuilder"
  DNSZone :: "DNSZone option"

definition GetDependencies :: "'role PolicyResource \<Rightarrow> 'tasks \<Rightarrow> DNSZone list" where
  "GetDependencies b tasks =
     (let deps = [] in
      case DNSZone b of
        Some z \<Rightarrow> deps @ [z]
      | None \<Rightarrow> deps)"

text \<open>\<open>Open\<close> returns the bytes its reader delivers, or the error.\<close>

definition Open :: "('sos, 'role) iam_env \<Rightarrow> 'role PolicyResource \<Rightarrow> error + string" where
  "Open E b =
     (let pb = Builder b;
          zone = (case DNSZone b of
                    None \<Rightarrow> Inr pb
                  | Some z \<Rightarrow>
                      (let hostedZoneID = fi_StringValue (ZoneID z)
                       in if hostedZoneID = [] then Inl (Errorf ''DNS ZoneID not set'' [])
                          else Inr (pb\<lparr>HostedZoneID := hostedZoneID\<rparr>)))
      in case zone of
           Inl e \<Rightarrow> Inl e
         | Inr pb' \<Rightarrow>
             (case fst (BuildAWSPolicy E pb') of
                Inl e \<Rightarrow> Inl (Errorf ''error building IAM policy: %v'' [ArgError e])
              | Inr None \<Rightarrow> Inr []
              | Inr (Some policy) \<Rightarrow>
                  (case fst (AsJSON E policy) of
                     Inl e \<Rightarrow> Inl (Errorf ''error building IAM policy: %v'' [ArgError e])
                   | Inr j \<Rightarrow> Inr j)))"

section \<open>awsmodel: the network model builder\<close>

subsection \<open>The tasks \<open>Build\<close> creates\<close>

text \<open>
  The task structs of \<open>awstasks\<close>, each with the fields that \<open>Build\<close> sets. A pointer
  is an option (\<open>None\<close> is nil), a pointer to another task holds that task, a
  \<open>map[string]string\<close> is a partial function and a nil map is \<open>None\<close>. The value
  \<open>X_zero\<close> is the Go zero value of struct \<open>X\<close>: a struct literal is the zero value with
  the fields it names set.
\<close>

type_synonym tags = "string \<rightharpoonup> string"

record VPC =
  Name :: "string option"
  Lifecycle :: lifecycle
  Shared :: "bool option"
  EnableDNSSupport :: "bool option"
  EnableDNSHostnames :: "bool option"
  AmazonIPv6 :: "bool option"
  AssociateExtraCIDRBlocks :: "string list"
  ID :: "string option"
  CIDR :: "string option"
  Tags :: "tags option"

definition VPC_zero :: VPC where
  "VPC_zero =
     \<lparr>VPC.Name = None, VPC.Lifecycle = [], VPC.Shared = None, VPC.EnableDNSSupport = None,
      VPC.EnableDNSHostnames = None, VPC.AmazonIPv6 = None, VPC.AssociateExtraCIDRBlocks = [],
      VPC.ID = None, VPC.CIDR = None, VPC.Tags = None\<rparr>"

record VPCAmazonIPv6CIDRBlock =
  Name :: "string option"
  Lifecycle :: lifecycle
  VPC :: "VPC option"
  Shared :: "bool option"

definition VPCAmazonIPv6CIDRBlock_zero :: VPCAmazonIPv6CIDRBlock where
  "VPCAmazonIPv6CIDRBlock_zero =
     \<lparr>VPCAmazonIPv6CIDRBlock.Name = None, VPCAmazonIPv6CIDRBlock.Lifecycle = [],
      VPCAmazonIPv6CIDRBlock.VPC = None, VPCAmazonIPv6CIDRBlock.Shared = None\<rparr>"

record VPCCIDRBlock =
  Name :: "string option"
  Lifecycle :: lifecycle
  VPC :: "VPC option"
  Shared :: "bool option"
  CIDRBlock :: "string option"

definition VPCCIDRBlock_zero :: VPCCIDRBlock where
  "VPCCIDRBlock_zero =
     \<lparr>VPCCIDRBlock.Name = None, VPCCIDRBlock.Lifecycle = [], VPCCIDRBlock.VPC = None,
      VPCCIDRBlock.Shared = None, VPCCIDRBlock.CIDRBlock = None\<rparr>"

record DHCPOptions =
  Name :: "string option"
  Lifecycle :: lifecycle
  DomainNameServers :: "string option"
  DomainName :: "string option"
  Tags :: "tags option"
  Shared :: "bool option"

definition DHCPOptions_zero :: DHCPOptions where
  "DHCPOptions_zero =
     \<lparr>DHCPOptions.Name = None, DHCPOptions.Lifecycle = [], DHCPOptions.DomainNameServers = None,
      DHCPOptions.DomainName = None, DHCPOptions.Tags = None, DHCPOptions.Shared = None\<rparr>"

record VPCDHCPOptionsAssociation =
  Name :: "string option"
  Lifecycle :: lifecycle
  VPC :: "VPC option"
  DHCPOptions :: "DHCPOptions option"

definition VPCDHCPOptionsAssociation_zero :: VPCDHCPOptionsAssociation where
  "VPCDHCPOptionsAssociation_zero =
     \<lparr>VPCDHCPOptionsAssociation.Name = None, VPCDHCPOptionsAssociation.Lifecycle = [],
      VPCDHCPOptionsAssociation.VPC = None, VPCDHCPOptionsAssociation.DHCPOptions = None\<rparr>"

record InternetGateway =
  Name :: "string option"
  Lifecycle :: lifecycle
  VPC :: "VPC option"
  Shared :: "bool option"
  Tags :: "tags option"

definition InternetGateway_zero :: InternetGateway where
  "InternetGateway_zero =
     \<lparr>InternetGateway.Name = None, InternetGateway.Lifecycle = [], InternetGateway.VPC = None,
      InternetGateway.Shared = None, InternetGateway.Tags = None\<rparr>"

record RouteTable =
  Name :: "string option"
  Lifecycle :: lifecycle
  VPC :: "VPC option"
  Tags :: "tags option"
  Shared :: "bool option"

definition RouteTable_zero :: RouteTable where
  "RouteTable_zero =
     \<lparr>RouteTable.Name = None, RouteTable.Lifecycle = [], RouteTable.VPC = None,
      RouteTable.Tags = None, RouteTable.Shared = None\<rparr>"

record Subnet =
  Name :: "string option"
  ShortName :: "string option"
  Lifecycle :: lifecycle
  VPC :: "VPC option"
  AvailabilityZone :: "string option"
  CIDR :: "string option"
  Shared :: "bool option"
  Tags :: "tags option"
  AmazonIPv6CIDR :: "VPCAmazonIPv6CIDRBlock option"
  IPv6CIDR :: "string option"
  ID :: "string option"

definition Subnet_zero :: Subnet where
  "Subnet_zero =
     \<lparr>Subnet.Name = None, Subnet.ShortName = None, Subnet.Lifecycle = [], Subnet.VPC = None,
      Subnet.AvailabilityZone = None, Subnet.CIDR = None, Subnet.Shared = None,
      Subnet.Tags = None, Subnet.AmazonIPv6CIDR = None, Subnet.IPv6CIDR = None,
      Subnet.ID = None\<rparr>"

record RouteTableAssociation =
  Name :: "string option"
  Lifecycle :: lifecycle
  RouteTable :: "RouteTable option"
  Subnet :: "Subnet option"

definition RouteTableAssociation_zero :: RouteTableAssociation where
  "RouteTableAssociation_zero =
     \<lparr>RouteTableAssociation.Name = None, RouteTableAssociation.Lifecycle = [],
      RouteTableAssociation.RouteTable = None, RouteTableAssociation.Subnet = None\<rparr>"

record ElasticIP =
  Name :: "string option"
  ID :: "string option"
  Lifecycle :: lifecycle
  AssociatedNatGatewayRouteTable :: "RouteTable option"
  Shared :: "bool option"
  Tags :: "tags option"
  PublicIP :: "string option"

definition ElasticIP_zero :: ElasticIP where
  "ElasticIP_zero =
     \<lparr>ElasticIP.Name = None, ElasticIP.ID = None, ElasticIP.Lifecycle = [],
      ElasticIP.AssociatedNatGatewayRouteTable = None, ElasticIP.Shared = None,
      ElasticIP.Tags = None, ElasticIP.PublicIP = None\<rparr>"

record NatGateway =
  Name :: "string option"
  Lifecycle :: lifecycle
  Subnet :: "Subnet option"
  ID :: "string option"
  ElasticIP :: "ElasticIP option"
  AssociatedRouteTable :: "RouteTable option"
  Shared :: "bool option"
  Tags :: "tags option"

definition NatGateway_zero :: NatGateway where
  "NatGateway_zero =
     \<lparr>NatGateway.Name = None, NatGateway.Lifecycle = [], NatGateway.Subnet = None,
      NatGateway.ID = None, NatGateway.ElasticIP = None, NatGateway.AssociatedRouteTable = None,
      NatGateway.Shared = None, NatGateway.Tags = None\<rparr>"

record Instance =
  Name :: "string option"
  Lifecycle :: lifecycle
  ID :: "string option"
  Shared :: "bool option"
  Tags :: "tags option"

definition Instance_zero :: Instance where
  "Instance_zero =
     \<lparr>Instance.Name = None, Instance.Lifecycle = [], Instance.ID = None,
      Instance.Shared = None, Instance.Tags = None\<rparr>"

record Route =
  Name :: "string option"
  Lifecycle :: lifecycle
  CIDR :: "string option"
  IPv6CIDR :: "string option"
  RouteTable :: "RouteTable option"
  InternetGateway :: "InternetGateway option"
  Instance :: "Instance option"
  NatGateway :: "NatGateway option"
  TransitGatewayID :: "string option"

definition Route_zero :: Route where
  "Route_zero =
     \<lparr>Route.Name = None, Route.Lifecycle = [], Route.CIDR = None, Route.IPv6CIDR = None,
      Route.RouteTable = None, Route.InternetGateway = None, Route.Instance = None,
      Route.NatGateway = None, Route.TransitGatewayID = None\<rparr>"

datatype task =
    TaskVPC VPC
  | TaskVPCAmazonIPv6CIDRBlock VPCAmazonIPv6CIDRBlock
  | TaskVPCCIDRBlock VPCCIDRBlock
  | TaskDHCPOptions DHCPOptions
  | TaskVPCDHCPOptionsAssociation VPCDHCPOptionsAssociation
  | TaskInternetGateway InternetGateway
  | TaskRouteTable RouteTable
  | TaskRoute Route
  | TaskSubnet Subnet
  | TaskRouteTableAssociation RouteTableAssociation
  | TaskNatGateway NatGateway
  | TaskElasticIP ElasticIP
  | TaskInstance Instance

text \<open>
  \<open>fi.ModelBuilderContext\<close>: \<open>AddTask\<close> is defined elsewhere; the context here is the
  list of the tasks handed to \<open>AddTask\<close>, in the order of the calls.
\<close>

record ModelBuilderContext =
  Tasks :: "task list"

definition AddTask :: "task \<Rightarrow> ModelBuilderContext \<Rightarrow> ModelBuilderContext" where
  "AddTask t c = c\<lparr>Tasks := Tasks c @ [t]\<rparr>"

subsection \<open>The builder\<close>

text \<open>
  The builder with the cluster, the region and the lifecycle of its embedded context.
  The methods of that context and the tag names of other packages are not in this file:
  they are the fields of the environment. \<open>zones_order\<close> is the order in which the
  runtime ranges over the \<open>infoByZone\<close> map.
\<close>

record NetworkModelBuilder =
  Cluster :: Cluster
  Region :: string
  Lifecycle :: lifecycle

record network_env =
  ClusterName :: string
  SharedVPC :: bool
  CloudTags :: "string \<Rightarrow> bool \<Rightarrow> tags"
  LinkToVPC :: VPC
  LinkToAmazonVPCIPv6CIDR :: VPCAmazonIPv6CIDRBlock
  LinkToPrivateRouteTableInZone :: "string \<Rightarrow> RouteTable"
  NamePrivateRouteTableInZone :: "string \<Rightarrow> string"
  LinkToUtilitySubnetInZone :: "string \<Rightarrow> error + Subnet"
  TagNameKopsRole :: string
  TagNameSubnetPublicELB :: string
  TagNameSubnetInternalELB :: string
  zones_order :: "(string \<rightharpoonup> ClusterSubnetSpec list) \<Rightarrow> string list"

text \<open>\<open>zoneInfo\<close> has the one field \<open>PrivateSubnets\<close>: a zone's info is that list.\<close>

type_synonym zoneInfo = "ClusterSubnetSpec list"

definition isUnmanaged :: "ClusterSubnetSpec \<Rightarrow> bool" where
  "isUnmanaged subnet = (Egress subnet = EgressExternal)"

subsection \<open>\<open>Build\<close>: the VPC, its CIDR blocks and the DHCP options\<close>

definition build_vpc ::
  "network_env \<Rightarrow> NetworkModelBuilder \<Rightarrow> ModelBuilderContext \<Rightarrow> ModelBuilderContext" where
  "build_vpc E b c =
     (let sharedVPC = SharedVPC E;
          vpcName = ClusterName E;
          tags = CloudTags E vpcName sharedVPC;
          vpcTags = (if sharedVPC then None else Some tags);
          t0 = VPC_zero\<lparr>VPC.Name := fi_String vpcName,
                         VPC.Lifecycle := NetworkModelBuilder.Lifecycle b,
                         VPC.Shared := fi_Bool sharedVPC,
                         VPC.EnableDNSSupport := fi_Bool True,
                         VPC.Tags := vpcTags\<rparr>;
          t1 = (if sharedVPC then t0
                else t0\<lparr>VPC.EnableDNSHostnames := fi_Bool True,
                        VPC.AmazonIPv6 := fi_Bool True,
                        VPC.AssociateExtraCIDRBlocks :=
                          AdditionalNetworkCIDRs (Spec (NetworkModelBuilder.Cluster b))\<rparr>);
          t2 = (if NetworkID (Spec (NetworkModelBuilder.Cluster b)) \<noteq> []
                then t1\<lparr>VPC.ID := fi_String (NetworkID (Spec (NetworkModelBuilder.Cluster b)))\<rparr>
                else t1);
          t3 = (if NetworkCIDR (Spec (NetworkModelBuilder.Cluster b)) \<noteq> []
                then t2\<lparr>VPC.CIDR := fi_String (NetworkCIDR (Spec (NetworkModelBuilder.Cluster b)))\<rparr>
                else t2)
      in AddTask (TaskVPC t3) c)"

definition build_vpc_cidr_blocks ::
  "network_env \<Rightarrow> NetworkModelBuilder \<Rightarrow> ModelBuilderContext \<Rightarrow> ModelBuilderContext" where
  "build_vpc_cidr_blocks E b c =
     (if \<not> SharedVPC E then
        (let c1 = AddTask (TaskVPCAmazonIPv6CIDRBlock
                    (VPCAmazonIPv6CIDRBlock_zero
                       \<lparr>VPCAmazonIPv6CIDRBlock.Name := fi_String ''AmazonIPv6'',
                        VPCAmazonIPv6CIDRBlock.Lifecycle := NetworkModelBuilder.Lifecycle b,
                        VPCAmazonIPv6CIDRBlock.VPC := Some (LinkToVPC E),
                        VPCAmazonIPv6CIDRBlock.Shared := fi_Bool False\<rparr>)) c
         in fold (\<lambda>cidr. AddTask (TaskVPCCIDRBlock
                    (VPCCIDRBlock_zero
                       \<lparr>VPCCIDRBlock.Name := fi_String cidr,
                        VPCCIDRBlock.Lifecycle := NetworkModelBuilder.Lifecycle b,
                        VPCCIDRBlock.VPC := Some (LinkToVPC E),
                        VPCCIDRBlock.Shared := fi_Bool False,
                        VPCCIDRBlock.CIDRBlock := fi_String cidr\<rparr>)))
                 (AdditionalNetworkCIDRs (Spec (NetworkModelBuilder.Cluster b))) c1)
      else c)"

definition build_dhcp ::
  "network_env \<Rightarrow> NetworkModelBuilder \<Rightarrow> ModelBuilderContext \<Rightarrow> ModelBuilderContext" where
  "build_dhcp E b c =
     (if \<not> SharedVPC E then
        (let tags = CloudTags E (ClusterName E) (SharedVPC E);
             dhcp0 = DHCPOptions_zero
                       \<lparr>DHCPOptions.Name := fi_String (ClusterName E),
                        DHCPOptions.Lifecycle := NetworkModelBuilder.Lifecycle b,
                        DHCPOptions.DomainNameServers := fi_String ''AmazonProvidedDNS'',
                        DHCPOptions.Tags := Some tags,
                        DHCPOptions.Shared := fi_Bool (SharedVPC E)\<rparr>;
             dhcp = (if NetworkModelBuilder.Region b = ''us-east-1''
                     then dhcp0\<lparr>DHCPOptions.DomainName := fi_String ''ec2.internal''\<rparr>
                     else dhcp0\<lparr>DHCPOptions.DomainName :=
                                   fi_String (NetworkModelBuilder.Region b @ ''.compute.internal'')\<rparr>);
             c1 = AddTask (TaskDHCPOptions dhcp) c
         in AddTask (TaskVPCDHCPOptionsAssociation
                       (VPCDHCPOptionsAssociation_zero
                          \<lparr>VPCDHCPOptionsAssociation.Name := fi_String (ClusterName E),
                           VPCDHCPOptionsAssociation.Lifecycle := NetworkModelBuilder.Lifecycle b,
                           VPCDHCPOptionsAssociation.VPC := Some (LinkToVPC E),
                           VPCDHCPOptionsAssociation.DHCPOptions := Some dhcp\<rparr>)) c1)
      else c)"

subsection \<open>\<open>Build\<close>: which subnets are shared or unmanaged\<close>

text \<open>
  The two loops over the subnets: the first enters every zone with \<open>true\<close>, the second
  clears the flags. Reading \<open>allSubnetsSharedInZone[zone]\<close> gives \<open>false\<close> for a zone
  that is not in the map.
\<close>

definition allSubnetsSharedInZone :: "ClusterSubnetSpec list \<Rightarrow> string \<rightharpoonup> bool" where
  "allSubnetsSharedInZone subnets =
     fold (\<lambda>subnetSpec m. if ProviderID subnetSpec \<noteq> [] then m else m(Zone subnetSpec \<mapsto> False))
          subnets
          (fold (\<lambda>subnetSpec m. m(Zone subnetSpec \<mapsto> True)) subnets Map.empty)"

definition allSubnetsShared :: "ClusterSubnetSpec list \<Rightarrow> bool" where
  "allSubnetsShared subnets = fold (\<lambda>subnetSpec v. if ProviderID subnetSpec \<noteq> [] then v else False) subnets True"

definition allSubnetsUnmanaged :: "ClusterSubnetSpec list \<Rightarrow> bool" where
  "allSubnetsUnmanaged subnets = fold (\<lambda>subnetSpec v. if \<not> isUnmanaged subnetSpec then False else v) subnets True"

definition bool_at :: "(string \<rightharpoonup> bool) \<Rightarrow> string \<Rightarrow> bool" where
  "bool_at m k = (case m k of None \<Rightarrow> False | Some v \<Rightarrow> v)"

subsection \<open>\<open>Build\<close>: the internet gateway and the public route table\<close>

text \<open>The block returns the context and \<open>publicRouteTable\<close>, nil when none is created.\<close>

definition build_public_route_table ::
  "network_env \<Rightarrow> NetworkModelBuilder \<Rightarrow> ModelBuilderContext
    \<Rightarrow> ModelBuilderContext \<times> RouteTable option" where
  "build_public_route_table E b c =
     (let subnets = Subnets (Spec (NetworkModelBuilder.Cluster b)) in
      if \<not> allSubnetsUnmanaged subnets then
        (let igw0 = InternetGateway_zero
                      \<lparr>InternetGateway.Name := fi_String (ClusterName E),
                       InternetGateway.Lifecycle := NetworkModelBuilder.Lifecycle b,
                       InternetGateway.VPC := Some (LinkToVPC E),
                       InternetGateway.Shared := fi_Bool (SharedVPC E)\<rparr>;
             igw = igw0\<lparr>InternetGateway.Tags := Some (CloudTags E (ClusterName E) (SharedVPC E))\<rparr>;
             c1 = AddTask (TaskInternetGateway igw) c
         in if \<not> allSubnetsShared subnets then
              (let sharedRouteTable = False;
                   routeTableTags = (CloudTags E (ClusterName E) sharedRouteTable)
                                      (TagNameKopsRole E \<mapsto> ''public'');
                   publicRouteTable = RouteTable_zero
                      \<lparr>RouteTable.Name := fi_String (ClusterName E),
                       RouteTable.Lifecycle := NetworkModelBuilder.Lifecycle b,
                       RouteTable.VPC := Some (LinkToVPC E),
                       RouteTable.Tags := Some routeTableTags,
                       RouteTable.Shared := fi_Bool sharedRouteTable\<rparr>;
                   c2 = AddTask (TaskRouteTable publicRouteTable) c1;
                   c3 = AddTask (TaskRoute
                          (Route_zero\<lparr>Route.Name := fi_String ''0.0.0.0/0'',
                                      Route.Lifecycle := NetworkModelBuilder.Lifecycle b,
                                      Route.CIDR := fi_String ''0.0.0.0/0'',
                                      Route.RouteTable := Some publicRouteTable,
                                      Route.InternetGateway := Some igw\<rparr>)) c2;
                   c4 = AddTask (TaskRoute
                          (Route_zero\<lparr>Route.Name := fi_String ''::/0'',
                                      Route.Lifecycle := NetworkModelBuilder.Lifecycle b,
                                      Route.IPv6CIDR := fi_String ''::/0'',
                                      Route.RouteTable := Some publicRouteTable,
                                      Route.InternetGateway := Some igw\<rparr>)) c3
               in (c4, Some publicRouteTable))
            else (c1, None))
      else (c, None))"

subsection \<open>\<open>Build\<close>: the loop over the subnets\<close>

definition subnet_tags :: "network_env \<Rightarrow> NetworkModelBuilder \<Rightarrow> ClusterSubnetSpec \<Rightarrow> tags" where
  "subnet_tags E b subnetSpec =
     (let sharedSubnet = (ProviderID subnetSpec \<noteq> []);
          subnetName = ClusterSubnetSpec.Name subnetSpec @ ''.'' @ ClusterName E
      in if DisableSubnetTags (Spec (NetworkModelBuilder.Cluster b)) then Map.empty
         else
           (let tags0 = (CloudTags E subnetName sharedSubnet)(''SubnetType'' \<mapsto> Type subnetSpec)
            in if Type subnetSpec = SubnetTypePublic \<or> Type subnetSpec = SubnetTypeUtility then
                 (let tags1 = tags0(TagNameSubnetPublicELB E \<mapsto> ''1'')
                  in if Nodes (Topology (Spec (NetworkModelBuilder.Cluster b))) = TopologyPublic
                     then tags1(TagNameSubnetInternalELB E \<mapsto> ''1'')
                     else tags1)
               else if Type subnetSpec = SubnetTypePrivate then
                 tags0(TagNameSubnetInternalELB E \<mapsto> ''1'')
               else tags0))"

definition subnet_task :: "network_env \<Rightarrow> NetworkModelBuilder \<Rightarrow> ClusterSubnetSpec \<Rightarrow> Subnet" where
  "subnet_task E b subnetSpec =
     (let sharedSubnet = (ProviderID subnetSpec \<noteq> []);
          subnetName = ClusterSubnetSpec.Name subnetSpec @ ''.'' @ ClusterName E;
          subnet0 = Subnet_zero
                      \<lparr>Subnet.Name := fi_String subnetName,
                       Subnet.ShortName := fi_String (ClusterSubnetSpec.Name subnetSpec),
                       Subnet.Lifecycle := NetworkModelBuilder.Lifecycle b,
                       Subnet.VPC := Some (LinkToVPC E),
                       Subnet.AvailabilityZone := fi_String (Zone subnetSpec),
                       Subnet.CIDR := fi_String (ClusterSubnetSpec.CIDR subnetSpec),
                       Subnet.Shared := fi_Bool sharedSubnet,
                       Subnet.Tags := Some (subnet_tags E b subnetSpec)\<rparr>;
          subnet1 = (if ClusterSubnetSpec.IPv6CIDR subnetSpec \<noteq> [] then
                       (if \<not> SharedVPC E
                        then subnet0\<lparr>Subnet.AmazonIPv6CIDR := Some (LinkToAmazonVPCIPv6CIDR E)\<rparr>
                        else subnet0)
                         \<lparr>Subnet.IPv6CIDR := fi_String (ClusterSubnetSpec.IPv6CIDR subnetSpec)\<rparr>
                     else subnet0)
      in if ProviderID subnetSpec \<noteq> []
         then subnet1\<lparr>Subnet.ID := fi_String (ProviderID subnetSpec)\<rparr>
         else subnet1)"

text \<open>
  One pass of the loop body, on the context and the \<open>infoByZone\<close> map; it returns the
  error of the \<open>default\<close> case with what has been done before it.
\<close>

definition subnet_step ::
  "network_env \<Rightarrow> NetworkModelBuilder \<Rightarrow> RouteTable option \<Rightarrow> ClusterSubnetSpec
    \<Rightarrow> ModelBuilderContext \<times> (string \<rightharpoonup> zoneInfo)
    \<Rightarrow> error option \<times> ModelBuilderContext \<times> (string \<rightharpoonup> zoneInfo)" where
  "subnet_step E b publicRouteTable subnetSpec st =
     (let c = fst st; infoByZone = snd st;
          sharedSubnet = (ProviderID subnetSpec \<noteq> []);
          subnet = subnet_task E b subnetSpec;
          c1 = AddTask (TaskSubnet subnet) c
      in if Type subnetSpec = SubnetTypePublic \<or> Type subnetSpec = SubnetTypeUtility then
           (if \<not> sharedSubnet \<and> \<not> isUnmanaged subnetSpec then
              (None,
               AddTask (TaskRouteTableAssociation
                 (RouteTableAssociation_zero
                    \<lparr>RouteTableAssociation.Name :=
                       fi_String (ClusterSubnetSpec.Name subnetSpec @ ''.'' @ ClusterName E),
                     RouteTableAssociation.Lifecycle := NetworkModelBuilder.Lifecycle b,
                     RouteTableAssociation.RouteTable := publicRouteTable,
                     RouteTableAssociation.Subnet := Some subnet\<rparr>)) c1,
               infoByZone)
            else (None, c1, infoByZone))
         else if Type subnetSpec = SubnetTypePrivate then
           (if \<not> sharedSubnet \<and> \<not> isUnmanaged subnetSpec then
              (let c2 = AddTask (TaskRouteTableAssociation
                     (RouteTableAssociation_zero
                        \<lparr>RouteTableAssociation.Name :=
                           fi_String (''private-'' @ ClusterSubnetSpec.Name subnetSpec @ ''.'' @ ClusterName E),
                         RouteTableAssociation.Lifecycle := NetworkModelBuilder.Lifecycle b,
                         RouteTableAssociation.RouteTable :=
                           Some (LinkToPrivateRouteTableInZone E (Zone subnetSpec)),
                         RouteTableAssociation.Subnet := Some subnet\<rparr>)) c1;
                   info = (case infoByZone (Zone subnetSpec) of None \<Rightarrow> [] | Some i \<Rightarrow> i)
               in (None, c2, infoByZone(Zone subnetSpec \<mapsto> info @ [subnetSpec])))
            else (None, c1, infoByZone))
         else
           (Some (Errorf ''subnet %q has unknown type %q''
                    [ArgString (ClusterSubnetSpec.Name subnetSpec), ArgString (Type subnetSpec)]),
            c1, infoByZone))"

fun subnets_loop ::
  "network_env \<Rightarrow> NetworkModelBuilder \<Rightarrow> RouteTable option \<Rightarrow> ClusterSubnetSpec list
    \<Rightarrow> ModelBuilderContext \<times> (string \<rightharpoonup> zoneInfo)
    \<Rightarrow> error option \<times> ModelBuilderContext \<times> (string \<rightharpoonup> zoneInfo)" where
  "subnets_loop E b publicRouteTable [] st = (None, st)"
| "subnets_loop E b publicRouteTable (subnetSpec # rest) st =
     (case subnet_step E b publicRouteTable subnetSpec st of
        (Some err, st') \<Rightarrow> (Some err, st')
      | (None, st') \<Rightarrow> subnets_loop E b publicRouteTable rest st')"

subsection \<open>\<open>Build\<close>: private route tables and egress, zone by zone\<close>

text \<open>The check that the private subnets of a zone agree on egress and public IP.\<close>

fun check_mixed :: "ClusterSubnetSpec list \<Rightarrow> string \<Rightarrow> string \<Rightarrow> error option" where
  "check_mixed [] egress publicIP = None"
| "check_mixed (subnet # rest) egress publicIP =
     (if Egress subnet \<noteq> egress
      then Some (Errorf ''cannot mix egress values in private subnets'' [])
      else if ClusterSubnetSpec.PublicIP subnet \<noteq> publicIP
      then Some (Errorf ''cannot mix publicIP values in private subnets'' [])
      else check_mixed rest egress publicIP)"

text \<open>
  The egress of a zone: the tasks added, and the NAT gateway, the transit gateway id and
  the instance that the route of the zone will use.
\<close>

record zone_egress =
  ngw :: "NatGateway option"
  tgwID :: "string option"
  inst :: "Instance option"

definition build_egress ::
  "network_env \<Rightarrow> NetworkModelBuilder \<Rightarrow> string \<Rightarrow> Subnet \<Rightarrow> string \<Rightarrow> string
    \<Rightarrow> ModelBuilderContext \<Rightarrow> error option \<times> ModelBuilderContext \<times> zone_egress" where
  "build_egress E b zone utilitySubnet egress publicIP c =
     (let none = \<lparr>ngw = None, tgwID = None, inst = None\<rparr>;
          name = zone @ ''.'' @ ClusterName E
      in if egress \<noteq> [] then
           (if prefix ''nat-'' egress then
              (let g = NatGateway_zero
                         \<lparr>NatGateway.Name := fi_String name,
                          NatGateway.Lifecycle := NetworkModelBuilder.Lifecycle b,
                          NatGateway.Subnet := Some utilitySubnet,
                          NatGateway.ID := fi_String egress,
                          NatGateway.AssociatedRouteTable := Some (LinkToPrivateRouteTableInZone E zone),
                          NatGateway.Shared := fi_Bool True,
                          NatGateway.Tags := Some (CloudTags E name True)\<rparr>
               in (None, AddTask (TaskNatGateway g) c, none\<lparr>ngw := Some g\<rparr>))
            else if prefix ''eipalloc-'' egress then
              (let eip = ElasticIP_zero
                           \<lparr>ElasticIP.Name := fi_String name,
                            ElasticIP.ID := fi_String egress,
                            ElasticIP.Lifecycle := NetworkModelBuilder.Lifecycle b,
                            ElasticIP.AssociatedNatGatewayRouteTable :=
                              Some (LinkToPrivateRouteTableInZone E zone),
                            ElasticIP.Shared := fi_Bool True,
                            ElasticIP.Tags := Some (CloudTags E name True)\<rparr>;
                   c1 = AddTask (TaskElasticIP eip) c;
                   g = NatGateway_zero
                         \<lparr>NatGateway.Name := fi_String name,
                          NatGateway.Lifecycle := NetworkModelBuilder.Lifecycle b,
                          NatGateway.Subnet := Some utilitySubnet,
                          NatGateway.ElasticIP := Some eip,
                          NatGateway.AssociatedRouteTable := Some (LinkToPrivateRouteTableInZone E zone),
                          NatGateway.Tags := Some (CloudTags E name False)\<rparr>
               in (None, AddTask (TaskNatGateway g) c1, none\<lparr>ngw := Some g\<rparr>))
            else if prefix ''i-'' egress then
              (let i = Instance_zero
                         \<lparr>Instance.Name := fi_String egress,
                          Instance.Lifecycle := NetworkModelBuilder.Lifecycle b,
                          Instance.ID := fi_String egress,
                          Instance.Shared := fi_Bool True,
                          Instance.Tags := None\<rparr>
               in (None, AddTask (TaskInstance i) c, none\<lparr>inst := Some i\<rparr>))
            else if prefix ''tgw-'' egress then (None, c, none\<lparr>tgwID := Some egress\<rparr>)
            else if egress = ''External'' then (None, c, none)
            else
              (Some (Errorf ''kops currently only supports re-use of either NAT EC2 Instances or NAT Gateways. We will support more eventually! Please see https://github.com/kubernetes/kops/issues/1530'' []),
               c, none))
         else
           (let eip0 = ElasticIP_zero
                         \<lparr>ElasticIP.Name := fi_String name,
                          ElasticIP.Lifecycle := NetworkModelBuilder.Lifecycle b,
                          ElasticIP.AssociatedNatGatewayRouteTable :=
                            Some (LinkToPrivateRouteTableInZone E zone)\<rparr>;
                eip = (if publicIP \<noteq> []
                       then eip0\<lparr>ElasticIP.PublicIP := fi_String publicIP,
                                  ElasticIP.Tags := Some (CloudTags E name True)\<rparr>
                       else eip0\<lparr>ElasticIP.Tags := Some (CloudTags E name False)\<rparr>);
                c1 = AddTask (TaskElasticIP eip) c;
                g = NatGateway_zero
                      \<lparr>NatGateway.Name := fi_String name,
                       NatGateway.Lifecycle := NetworkModelBuilder.Lifecycle b,
                       NatGateway.Subnet := Some utilitySubnet,
                       NatGateway.ElasticIP := Some eip,
                       NatGateway.AssociatedRouteTable := Some (LinkToPrivateRouteTableInZone E zone),
                       NatGateway.Tags := Some (CloudTags E name False)\<rparr>
            in (None, AddTask (TaskNatGateway g) c1, none\<lparr>ngw := Some g\<rparr>)))"

text \<open>The private route table of a zone and its route, after the egress.\<close>

definition build_private_routes ::
  "network_env \<Rightarrow> NetworkModelBuilder \<Rightarrow> string \<Rightarrow> zone_egress \<Rightarrow> ModelBuilderContext
    \<Rightarrow> ModelBuilderContext" where
  "build_private_routes E b zone eg c =
     (let routeTableShared =
            bool_at (allSubnetsSharedInZone (Subnets (Spec (NetworkModelBuilder.Cluster b)))) zone;
          routeTableTags = (CloudTags E (NamePrivateRouteTableInZone E zone) routeTableShared)
                             (TagNameKopsRole E \<mapsto> ''private-'' @ zone);
          rt = RouteTable_zero
                 \<lparr>RouteTable.Name := fi_String (NamePrivateRouteTableInZone E zone),
                  RouteTable.VPC := Some (LinkToVPC E),
                  RouteTable.Lifecycle := NetworkModelBuilder.Lifecycle b,
                  RouteTable.Shared := fi_Bool routeTableShared,
                  RouteTable.Tags := Some routeTableTags\<rparr>;
          c1 = AddTask (TaskRouteTable rt) c;
          r = (if inst eg \<noteq> None
               then Route_zero
                      \<lparr>Route.Name := fi_String (''private-'' @ zone @ ''-0.0.0.0/0''),
                       Route.Lifecycle := NetworkModelBuilder.Lifecycle b,
                       Route.CIDR := fi_String ''0.0.0.0/0'',
                       Route.RouteTable := Some rt,
                       Route.Instance := inst eg\<rparr>
               else Route_zero
                      \<lparr>Route.Name := fi_String (''private-'' @ zone @ ''-0.0.0.0/0''),
                       Route.Lifecycle := NetworkModelBuilder.Lifecycle b,
                       Route.CIDR := fi_String ''0.0.0.0/0'',
                       Route.RouteTable := Some rt,
                       Route.NatGateway := ngw eg,
                       Route.TransitGatewayID := tgwID eg\<rparr>)
      in AddTask (TaskRoute r) c1)"

text \<open>
  One pass of the loop over \<open>infoByZone\<close>: \<open>continue\<close> and the end of the body give no
  error, every \<open>return\<close> gives its error with the context as it stands.
\<close>

definition zone_step ::
  "network_env \<Rightarrow> NetworkModelBuilder \<Rightarrow> string \<times> zoneInfo \<Rightarrow> ModelBuilderContext
    \<Rightarrow> error option \<times> ModelBuilderContext" where
  "zone_step E b entry c =
     (let zone = fst entry; info = snd entry in
      if length info = 0 then (None, c)
      else
        case LinkToUtilitySubnetInZone E zone of
          Inl err \<Rightarrow> (Some err, c)
        | Inr utilitySubnet \<Rightarrow>
            (let egress = Egress (hd info);
                 publicIP = ClusterSubnetSpec.PublicIP (hd info);
                 allUnmanaged = fold (\<lambda>subnetSpec v. if \<not> isUnmanaged subnetSpec then False else v) info True
             in if allUnmanaged then (None, c)
                else
                  case check_mixed info egress publicIP of
                    Some err \<Rightarrow> (Some err, c)
                  | None \<Rightarrow>
                      (case build_egress E b zone utilitySubnet egress publicIP c of
                         (Some err, c1, eg) \<Rightarrow> (Some err, c1)
                       | (None, c1, eg) \<Rightarrow> (None, build_private_routes E b zone eg c1))))"

fun zones_loop ::
  "network_env \<Rightarrow> NetworkModelBuilder \<Rightarrow> (string \<times> zoneInfo) list \<Rightarrow> ModelBuilderContext
    \<Rightarrow> error option \<times> ModelBuilderContext" where
  "zones_loop E b [] c = (None, c)"
| "zones_loop E b (entry # rest) c =
     (case zone_step E b entry c of
        (Some err, c') \<Rightarrow> (Some err, c')
      | (None, c') \<Rightarrow> zones_loop E b rest c')"

subsection \<open>\<open>Build\<close>\<close>

text \<open>\<open>Build\<close> returns its error (\<open>None\<close> is nil) and the context with the tasks added.\<close>

definition Build ::
  "network_env \<Rightarrow> NetworkModelBuilder \<Rightarrow> ModelBuilderContext \<Rightarrow> error option \<times> ModelBuilderContext" where
  "Build E b c =
     (let c1 = build_vpc E b c;
          c2 = build_vpc_cidr_blocks E b c1;
          c3 = build_dhcp E b c2;
          (c4, publicRouteTable) = build_public_route_table E b c3
      in case subnets_loop E b publicRouteTable (Subnets (Spec (NetworkModelBuilder.Cluster b)))
                (c4, Map.empty) of
           (Some err, c5, infoByZone) \<Rightarrow> (Some err, c5)
         | (None, c5, infoByZone) \<Rightarrow>
             zones_loop E b (go_range infoByZone (zones_order E infoByZone)) c5)"

section \<open>The task-graph engine\<close>

text \<open>
  The generic engine (dependency analyzer, execution planner, deferred value resolver) is
  not among the sources at hand. The definitions of this section follow the
  specification; each one says so.
\<close>

subsection \<open>Tasks and their links\<close>

text \<open>
  Modelled from the spec: the task contract of the engine (the engine's task interface is
  not in the sources). A task has a lifecycle marker and exported fields; a field holds a
  plain value (its content does not matter here), a reference to another task (which may
  be unset), an ordered sequence of references, or a mapping that contains references.
  A reference is a value of type \<open>'n\<close>: the unique name of the task in a Task Map, or
  the task object itself where the code holds a pointer to it.
\<close>

datatype 'n field_value =
    Plain
  | Link "'n option"
  | LinkSeq "'n list"
  | LinkMap "(string \<times> 'n) list"

text \<open>
  Modelled from the spec: a task of the engine (not in the sources), with its lifecycle
  marker and its exported fields by name.
\<close>

record 'n Task =
  task_lifecycle :: lifecycle
  task_fields :: "(string \<times> 'n field_value) list"

text \<open>
  Modelled from the spec: the Task Map (not in the sources), the mapping of task name to
  task, kept as the list of its entries; the names are unique.
\<close>

type_synonym 'n task_map = "('n \<times> 'n Task) list"

text \<open>
  Modelled from the spec: the structural walk of the Dependency Analyzer (its code is not
  in the sources). Every exported field is walked; a field whose type marks it as a
  reference contributes the tasks it refers to, a plain value contributes none.
\<close>

fun field_links :: "'n field_value \<Rightarrow> 'n list" where
  "field_links Plain = []"
| "field_links (Link None) = []"
| "field_links (Link (Some n)) = [n]"
| "field_links (LinkSeq ns) = ns"
| "field_links (LinkMap m) = map snd m"

text \<open>
  Modelled from the spec: the walk over all the exported fields of a task (not in the
  sources), which collects the references of every field.
\<close>

definition walk_fields :: "(string \<times> 'n field_value) list \<Rightarrow> 'n list" where
  "walk_fields fs = concat (map (\<lambda>f. field_links (snd f)) fs)"

text \<open>
  Modelled from the spec: the edge set the Dependency Analyzer produces (not in the
  sources). A link to task \<open>a\<close> held by task \<open>b\<close> is the edge \<open>(a, b)\<close>: \<open>a\<close> must
  render before \<open>b\<close>.
\<close>

definition dependency_edges :: "'n task_map \<Rightarrow> ('n \<times> 'n) list" where
  "dependency_edges tm =
     concat (map (\<lambda>entry. map (\<lambda>a. (a, fst entry)) (walk_fields (task_fields (snd entry)))) tm)"

text \<open>
  Modelled from the spec: the structural errors of the engine (not in the sources): a
  reference to a task that is not in the map, reported with the owner and the field; a
  self-reference; a cycle, reported by the tasks left unscheduled.
\<close>

datatype 'n structural_error =
    DanglingReference 'n string 'n
  | SelfReference 'n string
  | CycleAmong "'n list"

text \<open>
  Modelled from the spec: the check of the references of one field (not in the sources):
  a self-reference and a reference to a name outside the map are errors.
\<close>

definition field_errors :: "'n list \<Rightarrow> 'n \<Rightarrow> string \<times> 'n field_value \<Rightarrow> 'n structural_error list" where
  "field_errors names owner f =
     concat (map (\<lambda>a. if a = owner then [SelfReference owner (fst f)]
                       else if a \<notin> set names then [DanglingReference owner (fst f) a]
                       else [])
                 (field_links (snd f)))"

text \<open>
  Modelled from the spec: the reference errors of a whole Task Map (not in the sources),
  task by task and field by field.
\<close>

definition reference_errors :: "'n task_map \<Rightarrow> 'n structural_error list" where
  "reference_errors tm =
     concat (map (\<lambda>entry. concat (map (field_errors (map fst tm) (fst entry))
                                        (task_fields (snd entry)))) tm)"

text \<open>
  Modelled from the spec: the Dependency Analyzer (not in the sources): the first
  reference error, or the edges.
\<close>

definition analyze :: "'n task_map \<Rightarrow> 'n structural_error + ('n \<times> 'n) list" where
  "analyze tm =
     (case reference_errors tm of
        [] \<Rightarrow> Inr (dependency_edges tm)
      | e # _ \<Rightarrow> Inl e)"

subsection \<open>Execution planner\<close>

text \<open>
  Modelled from the spec: the Execution Planner (not in the sources), iterative
  topological layering. The tasks not yet scheduled that have no remaining incoming edge
  form the next wave; the wave and its outgoing edges are removed; repeat. When tasks
  remain and none is ready, there is a cycle and the planner fails.
\<close>

definition ready :: "('n \<times> 'n) list \<Rightarrow> 'n list \<Rightarrow> 'n list" where
  "ready es ts = filter (\<lambda>t. \<forall>e \<in> set es. snd e \<noteq> t) ts"

text \<open>
  Modelled from the spec: the removal of a wave's outgoing edges (planner, not in the
  sources).
\<close>

definition remove_outgoing :: "'n list \<Rightarrow> ('n \<times> 'n) list \<Rightarrow> ('n \<times> 'n) list" where
  "remove_outgoing wave es = filter (\<lambda>e. fst e \<notin> set wave) es"

text \<open>
  Modelled from the spec: the layering loop of the planner (not in the sources). It
  returns the waves, or the tasks left when none is ready.
\<close>

function plan_waves :: "('n \<times> 'n) list \<Rightarrow> 'n list \<Rightarrow> 'n list + 'n list list" where
  "plan_waves es ts =
     (if ts = [] then Inr []
      else if ready es ts = [] then Inl ts
      else case plan_waves (remove_outgoing (ready es ts) es)
                           (filter (\<lambda>t. t \<notin> set (ready es ts)) ts) of
             Inl c \<Rightarrow> Inl c
           | Inr ws \<Rightarrow> Inr (ready es ts # ws))"
  by pat_completeness auto
termination
proof (relation "measure (\<lambda>(es, ts). length ts)")
  show "wf (measure (\<lambda>(es, ts). length ts))" by simp
next
  fix es :: "('n \<times> 'n) list" and ts :: "'n list"
  assume "ts \<noteq> []" and nonempty: "ready es ts \<noteq> []"
  then obtain x where x: "x \<in> set (ready es ts)"
    by (cases "ready es ts") auto
  then have "x \<in> set ts" by (simp add: ready_def)
  with x have "length (filter (\<lambda>t. t \<notin> set (ready es ts)) ts) < length ts"
    by (intro length_filter_less[of x]) auto
  then show "((remove_outgoing (ready es ts) es, filter (\<lambda>t. t \<notin> set (ready es ts)) ts), (es, ts))
               \<in> measure (\<lambda>(es, ts). length ts)"
    by simp
qed

text \<open>
  Modelled from the spec: the planner on a Task Map (not in the sources). Structural
  errors abort before anything is planned.
\<close>

definition planner :: "'n task_map \<Rightarrow> 'n structural_error + 'n list list" where
  "planner tm =
     (case analyze tm of
        Inl e \<Rightarrow> Inl e
      | Inr es \<Rightarrow>
          (case plan_waves es (map fst tm) of
             Inl c \<Rightarrow> Inl (CycleAmong c)
           | Inr ws \<Rightarrow> Inr ws))"

text \<open>
  Modelled from the spec: the wave index of a task (planner, not in the sources), the
  index of the first wave that holds it (the number of waves if none does).
\<close>

fun wave_index :: "'n list list \<Rightarrow> 'n \<Rightarrow> nat" where
  "wave_index [] t = 0"
| "wave_index (w # ws) t = (if t \<in> set w then 0 else Suc (wave_index ws t))"

subsection \<open>Deferred value resolver\<close>

text \<open>
  Modelled from the spec: the per-task state machine of the Executor (not in the
  sources).
\<close>

datatype task_status = Pending | Rendering | Done | Failed

text \<open>
  Modelled from the spec: the state of a task during a run (executor, not in the
  sources): its status and what it has published.
\<close>

record task_state =
  status :: task_status
  published :: "string \<rightharpoonup> string"

text \<open>
  The Deferred Value Resolver: a link is the value of field \<open>F\<close> on task \<open>T\<close>.
  Before \<open>T\<close> is Done, dereferencing it is an error; once \<open>T\<close> is Done it yields the
  value \<open>T\<close> has for the field.
\<close>

text \<open>
  Modelled from the spec: the errors of dereferencing (resolver, not in the sources).
\<close>

datatype 'n deref_error = UnknownTask 'n | NotRendered 'n | NoSuchField 'n string

text \<open>
  Modelled from the spec: dereferencing the link to field \<open>F\<close> of task \<open>T\<close> in a run
  (resolver, not in the sources).
\<close>

definition dereference ::
  "('n \<rightharpoonup> task_state) \<Rightarrow> 'n \<Rightarrow> string \<Rightarrow> 'n deref_error + string" where
  "dereference run T F =
     (case run T of
        None \<Rightarrow> Inl (UnknownTask T)
      | Some st \<Rightarrow>
          if status st \<noteq> Done then Inl (NotRendered T)
          else (case published st F of
                  None \<Rightarrow> Inl (NoSuchField T F)
                | Some v \<Rightarrow> Inr v))"

section \<open>Notions used to state the properties\<close>

text \<open>
  The text of a JSON object as \<open>Statement.MarshalJSON\<close> lays it out: between braces,
  the fields separated by commas, each the encoded name, a colon and a space, and the
  encoded value.
\<close>

fun join_with :: "string \<Rightarrow> string list \<Rightarrow> string" where
  "join_with sep [] = []"
| "join_with sep [x] = x"
| "join_with sep (x # y # ys) = x @ sep @ join_with sep (y # ys)"

definition field_text :: "string \<times> string \<Rightarrow> string" where
  "field_text kv = fst kv @ '': '' @ snd kv"

definition object_text :: "(string \<times> string) list \<Rightarrow> string" where
  "object_text fs = ''{'' @ join_with '','' (map field_text fs) @ ''}''"

text \<open>
  The fields a statement is to emit, by name and value, in the order of emission:
  \<open>Effect\<close> always, each of the others when it is not empty.
\<close>

definition emitted_fields ::
  "('sos, 'role) iam_env \<Rightarrow> 'sos Statement \<Rightarrow> (string \<times> 'sos json_arg) list" where
  "emitted_fields E s =
     (if stringorslice_IsEmpty E (Action s) then [] else [(''Action'', JStringOrSlice (Action s))])
     @ (if Condition s = [] then [] else [(''Condition'', JCondition (Condition s))])
     @ [(''Effect'', JEffect (Effect s))]
     @ (if Principal_IsEmpty (Principal s) then [] else [(''Principal'', JPrincipal (Principal s))])
     @ (if stringorslice_IsEmpty E (Resource s) then [] else [(''Resource'', JStringOrSlice (Resource s))])"

text \<open>
  A field is encoded by the encoder of the environment: its name as a string, its value
  as it is.
\<close>

definition encodes ::
  "('sos, 'role) iam_env \<Rightarrow> string \<times> 'sos json_arg \<Rightarrow> string \<times> string \<Rightarrow> bool" where
  "encodes E f kv =
     (json_Marshal E (JString (fst f)) = Inr (fst kv) \<and> json_Marshal E (snd f) = Inr (snd kv))"

text \<open>A subnet type that the loop over the subnets knows: it does not end \<open>Build\<close>.\<close>

definition known_type :: "ClusterSubnetSpec \<Rightarrow> bool" where
  "known_type subnetSpec =
     (Type subnetSpec = SubnetTypePublic \<or> Type subnetSpec = SubnetTypeUtility
      \<or> Type subnetSpec = SubnetTypePrivate)"








text \<open>
  The tasks of the private egress of a zone: its NAT gateway and its elastic IP (named
  after the zone and the cluster), its private route table (whose role tag names the
  zone) and its private route.
\<close>

definition zone_private_task :: "network_env \<Rightarrow> string \<Rightarrow> task \<Rightarrow> bool" where
  "zone_private_task E zone t =
     (case t of
        TaskNatGateway g \<Rightarrow> NatGateway.Name g = Some (zone @ ''.'' @ ClusterName E)
      | TaskElasticIP e \<Rightarrow> ElasticIP.Name e = Some (zone @ ''.'' @ ClusterName E)
      | TaskRouteTable r \<Rightarrow>
          (case RouteTable.Tags r of
             None \<Rightarrow> False
           | Some tg \<Rightarrow> tg (TagNameKopsRole E) = Some (''private-'' @ zone))
      | TaskRoute r \<Rightarrow> Route.Name r = Some (''private-'' @ zone @ ''-0.0.0.0/0'')
      | _ \<Rightarrow> False)"

text \<open>
  The two stages of \<open>Build\<close> that come before the loop over the zones: the context and
  the public route table before the loop over the subnets, and the result of that loop.
\<close>

definition before_subnets ::
  "network_env \<Rightarrow> NetworkModelBuilder \<Rightarrow> ModelBuilderContext
    \<Rightarrow> ModelBuilderContext \<times> RouteTable option" where
  "before_subnets E b c =
     build_public_route_table E b (build_dhcp E b (build_vpc_cidr_blocks E b (build_vpc E b c)))"

definition after_subnets ::
  "network_env \<Rightarrow> NetworkModelBuilder \<Rightarrow> ModelBuilderContext
    \<Rightarrow> error option \<times> ModelBuilderContext \<times> (string \<rightharpoonup> zoneInfo)" where
  "after_subnets E b c =
     subnets_loop E b (snd (before_subnets E b c)) (Subnets (Spec (NetworkModelBuilder.Cluster b)))
       (fst (before_subnets E b c), Map.empty)"




section \<open>Concrete inputs\<close>

text \<open>
  A terraform target with no file yet, and an environment in which the HCL2 renderer adds
  the document \<open>kubernetes.tf\<close> and every operating system call succeeds.
\<close>

definition hcl2_env :: "unit finish_env" where
  "hcl2_env =
     \<lparr>TerraformJSON_Enabled = False,
      finishJSON = (\<lambda>t. (Some (Errorf ''json'' []), t)),
      finishHCL2 = (\<lambda>t. (None, t\<lparr>Files := (Files t)(''kubernetes.tf'' \<mapsto> ''locals {}'')\<rparr>)),
      path_Join = (\<lambda>a b. a @ ''/'' @ b),
      path_Dir = (\<lambda>p. ''out''),
      files_order = (\<lambda>m. [''kubernetes.tf'']),
      os_result = (\<lambda>log c. None)\<rparr>"

definition empty_target :: "unit TerraformTarget" where
  "empty_target =
     \<lparr>Files = Map.empty, Cloud = (), Project = ''testproject'',
      TerraformTarget.ClusterName = ''minimal-gce.example.com'', outDir = ''out'', clusterSpecTarget = None\<rparr>"

text \<open>
  The first scenario of the specification: a network without dependencies, a subnet that
  links the network, an instance that links the subnet.
\<close>

definition scenario1 :: "string task_map" where
  "scenario1 =
     [(''Network'', \<lparr>task_lifecycle = ''Sync'', task_fields = [(''CIDR'', Plain)]\<rparr>),
      (''Subnet'', \<lparr>task_lifecycle = ''Sync'', task_fields = [(''VPC'', Link (Some ''Network''))]\<rparr>),
      (''Instance'', \<lparr>task_lifecycle = ''Sync'', task_fields = [(''Subnet'', Link (Some ''Subnet''))]\<rparr>)]"

text \<open>
  An environment for the policy code, for concrete runs. \<open>StringOrSlice\<close> is a list of
  strings. The encoder is a plain one: it puts strings between double quotes without
  escaping, writes a list of one string as that string and any other list as an array,
  and knows no conditions and no principals; for a policy it writes the statements and
  the version, without indentation. Every role builds the bastion policy of the cluster
  \<open>c\<close>.
\<close>

definition plain_quote :: "string \<Rightarrow> string" where
  "plain_quote s = [CHR 0x22] @ s @ [CHR 0x22]"

definition plain_Marshal :: "string list json_arg \<Rightarrow> error + string" where
  "plain_Marshal v =
     (case v of
        JString s \<Rightarrow> Inr (plain_quote s)
      | JEffect e \<Rightarrow> Inr (plain_quote e)
      | JStringOrSlice vs \<Rightarrow>
          Inr (case vs of
                 [x] \<Rightarrow> plain_quote x
               | _ \<Rightarrow> ''['' @ join_with '','' (map plain_quote vs) @ '']'')
      | JCondition c \<Rightarrow> Inl (Errorf ''json: unsupported value'' [])
      | JPrincipal p \<Rightarrow> Inl (Errorf ''json: unsupported value'' []))"

definition plain_env0 :: "(string list, unit) iam_env" where
  "plain_env0 =
     \<lparr>stringorslice_Of = (\<lambda>vs. vs),
      stringorslice_String = (\<lambda>v. [v]),
      stringorslice_IsEmpty = (\<lambda>vs. vs = []),
      json_Marshal = plain_Marshal,
      json_MarshalIndent = (\<lambda>p pre ind. Inl (Errorf ''json: unsupported value'' [])),
      Role_BuildAWSPolicy = (\<lambda>r b. Inr None)\<rparr>"

definition plain_MarshalIndent :: "string list Policy \<Rightarrow> string \<Rightarrow> string \<Rightarrow> error + string" where
  "plain_MarshalIndent p pre ind =
     (case filter (\<lambda>r. snd r \<noteq> None) (map (MarshalJSON plain_env0) (Statement p)) of
        r # _ \<Rightarrow> Inl (case snd r of Some e \<Rightarrow> e | None \<Rightarrow> Errorf [] [])
      | [] \<Rightarrow>
          Inr (''{'' @ plain_quote ''Statement'' @ '': ['' @
               join_with '','' (map (\<lambda>s. fst (MarshalJSON plain_env0 s)) (Statement p)) @
               ''],'' @ plain_quote ''Version'' @ '': '' @ plain_quote (Version p) @ ''}''))"

definition bastion_policy :: "string list Policy" where
  "bastion_policy = NodeRoleBastion_BuildAWSPolicy ''c''"

definition plain_env :: "(string list, unit) iam_env" where
  "plain_env =
     plain_env0\<lparr>json_MarshalIndent := plain_MarshalIndent,
                Role_BuildAWSPolicy := (\<lambda>r b. Inr (Some bastion_policy))\<rparr>"

text \<open>The statement that \<open>buildS3GetStatements\<close> adds for a master.\<close>

definition s3_get_statement :: "string list Statement" where
  "s3_get_statement =
     \<lparr>Effect = StatementEffectAllow,
      Principal = \<lparr>Federated = [], Service = []\<rparr>,
      Action = [''s3:Get*''],
      Resource = [''arn:aws:s3:::bucket/*''],
      Condition = []\<rparr>"

text \<open>
  A policy resource with a builder for the cluster \<open>c\<close>, linked to a DNS zone whose id
  is not set yet, and the same once the zone has the id \<open>Z1\<close>.
\<close>

definition node_builder :: "unit PolicyBuilder" where
  "node_builder =
     \<lparr>PolicyBuilder.Cluster = \<lparr>Spec = \<lparr>NetworkID = [], NetworkCIDR = [], AdditionalNetworkCIDRs = [],
                           Subnets = [], DisableSubnetTags = False,
                           Topology = \<lparr>Nodes = ''public''\<rparr>, EtcdClusters = []\<rparr>\<rparr>,
      HostedZoneID = [], KMSKeys = [], PolicyBuilder.Region = ''us-test-1'', ResourceARN = None,
      Role = (), UseServiceAccountIAM = False\<rparr>"

definition pending_zone_resource :: "unit PolicyResource" where
  "pending_zone_resource =
     \<lparr>Builder = node_builder, DNSZone = Some \<lparr>DNSZone.Name = Some ''c'', ZoneID = None\<rparr>\<rparr>"

definition done_zone_resource :: "unit PolicyResource" where
  "done_zone_resource =
     \<lparr>Builder = node_builder, DNSZone = Some \<lparr>DNSZone.Name = Some ''c'', ZoneID = Some ''Z1''\<rparr>\<rparr>"

text \<open>A run in which the task \<open>zone\<close> is still pending, and one in which it is done.\<close>

definition pending_run :: "string \<rightharpoonup> task_state" where
  "pending_run = [''zone'' \<mapsto> \<lparr>status = Pending, published = Map.empty\<rparr>]"

definition done_run :: "string \<rightharpoonup> task_state" where
  "done_run = [''zone'' \<mapsto> \<lparr>status = Done, published = [''ZoneID'' \<mapsto> ''Z1'']\<rparr>]"

text \<open>
  An environment for the network builder: the cluster \<open>c.example.com\<close>, links that
  carry the name of the task linked, a utility subnet in every zone, and zones visited
  in alphabetical order.
\<close>

definition net_env :: network_env where
  "net_env =
     \<lparr>ClusterName = ''c.example.com'',
      SharedVPC = False,
      CloudTags = (\<lambda>name shared. [''Name'' \<mapsto> name]),
      LinkToVPC = VPC_zero\<lparr>VPC.Name := Some ''c.example.com''\<rparr>,
      LinkToAmazonVPCIPv6CIDR =
        VPCAmazonIPv6CIDRBlock_zero\<lparr>VPCAmazonIPv6CIDRBlock.Name := Some ''AmazonIPv6''\<rparr>,
      LinkToPrivateRouteTableInZone =
        (\<lambda>zone. RouteTable_zero\<lparr>RouteTable.Name := Some (''private-'' @ zone @ ''.c.example.com'')\<rparr>),
      NamePrivateRouteTableInZone = (\<lambda>zone. ''private-'' @ zone @ ''.c.example.com''),
      LinkToUtilitySubnetInZone =
        (\<lambda>zone. Inr (Subnet_zero\<lparr>Subnet.Name := Some (''utility-'' @ zone @ ''.c.example.com'')\<rparr>)),
      TagNameKopsRole = ''kubernetes.io/kops/role'',
      TagNameSubnetPublicELB = ''kubernetes.io/role/elb'',
      TagNameSubnetInternalELB = ''kubernetes.io/role/internal-elb'',
      zones_order = (\<lambda>m. sorted_list_of_set (dom m))\<rparr>"

text \<open>
  Subnets of the zone \<open>a\<close>: a shared private subnet with egress \<open>nat-1\<close>, a private
  subnet owned by the cluster with no egress, one with egress \<open>nat-2\<close>, an unmanaged one
  (egress \<open>External\<close>), the utility subnet, and a subnet of a type that does not exist.
\<close>

definition shared_private :: ClusterSubnetSpec where
  "shared_private =
     \<lparr>ClusterSubnetSpec.Name = ''shared'', Zone = ''a'', ClusterSubnetSpec.CIDR = ''10.0.1.0/24'',
      ClusterSubnetSpec.IPv6CIDR = [], ProviderID = ''subnet-1'', Egress = ''nat-1'',
      Type = SubnetTypePrivate, ClusterSubnetSpec.PublicIP = []\<rparr>"

definition owned_private :: ClusterSubnetSpec where
  "owned_private =
     \<lparr>ClusterSubnetSpec.Name = ''owned'', Zone = ''a'', ClusterSubnetSpec.CIDR = ''10.0.2.0/24'',
      ClusterSubnetSpec.IPv6CIDR = [], ProviderID = [], Egress = [],
      Type = SubnetTypePrivate, ClusterSubnetSpec.PublicIP = []\<rparr>"

definition owned_private_nat :: ClusterSubnetSpec where
  "owned_private_nat =
     \<lparr>ClusterSubnetSpec.Name = ''owned-nat'', Zone = ''a'', ClusterSubnetSpec.CIDR = ''10.0.3.0/24'',
      ClusterSubnetSpec.IPv6CIDR = [], ProviderID = [], Egress = ''nat-2'',
      Type = SubnetTypePrivate, ClusterSubnetSpec.PublicIP = []\<rparr>"

definition unmanaged_private :: ClusterSubnetSpec where
  "unmanaged_private =
     \<lparr>ClusterSubnetSpec.Name = ''external'', Zone = ''a'', ClusterSubnetSpec.CIDR = ''10.0.4.0/24'',
      ClusterSubnetSpec.IPv6CIDR = [], ProviderID = [], Egress = ''External'',
      Type = SubnetTypePrivate, ClusterSubnetSpec.PublicIP = []\<rparr>"

definition utility_subnet :: ClusterSubnetSpec where
  "utility_subnet =
     \<lparr>ClusterSubnetSpec.Name = ''utility'', Zone = ''a'', ClusterSubnetSpec.CIDR = ''10.0.0.0/24'',
      ClusterSubnetSpec.IPv6CIDR = [], ProviderID = [], Egress = [],
      Type = SubnetTypeUtility, ClusterSubnetSpec.PublicIP = []\<rparr>"

definition odd_subnet :: ClusterSubnetSpec where
  "odd_subnet =
     \<lparr>ClusterSubnetSpec.Name = ''odd'', Zone = ''a'', ClusterSubnetSpec.CIDR = ''10.0.5.0/24'',
      ClusterSubnetSpec.IPv6CIDR = [], ProviderID = [], Egress = [],
      Type = ''Odd'', ClusterSubnetSpec.PublicIP = []\<rparr>"

text \<open>
  Two private subnets of the zone \<open>b\<close> owned by the cluster, one with no egress and one
  with egress \<open>nat-3\<close>.
\<close>

definition owned_private_b :: ClusterSubnetSpec where
  "owned_private_b =
     \<lparr>ClusterSubnetSpec.Name = ''owned-b'', Zone = ''b'', ClusterSubnetSpec.CIDR = ''10.0.6.0/24'',
      ClusterSubnetSpec.IPv6CIDR = [], ProviderID = [], Egress = [],
      Type = SubnetTypePrivate, ClusterSubnetSpec.PublicIP = []\<rparr>"

definition owned_private_nat_b :: ClusterSubnetSpec where
  "owned_private_nat_b =
     \<lparr>ClusterSubnetSpec.Name = ''owned-nat-b'', Zone = ''b'', ClusterSubnetSpec.CIDR = ''10.0.7.0/24'',
      ClusterSubnetSpec.IPv6CIDR = [], ProviderID = [], Egress = ''nat-3'',
      Type = SubnetTypePrivate, ClusterSubnetSpec.PublicIP = []\<rparr>"

definition builder_with :: "ClusterSubnetSpec list \<Rightarrow> NetworkModelBuilder" where
  "builder_with subnets =
     \<lparr>NetworkModelBuilder.Cluster =
        \<lparr>Spec = \<lparr>NetworkID = [], NetworkCIDR = ''10.0.0.0/16'', AdditionalNetworkCIDRs = [],
                  Subnets = subnets, DisableSubnetTags = False,
                  Topology = \<lparr>Nodes = ''private''\<rparr>, EtcdClusters = []\<rparr>\<rparr>,
      NetworkModelBuilder.Region = ''us-test-1'',
      NetworkModelBuilder.Lifecycle = ''Sync''\<rparr>"

definition no_tasks :: ModelBuilderContext where
  "no_tasks = \<lparr>Tasks = []\<rparr>"

section \<open>Properties\<close>

text \<open>The definitions that a run of \<open>Build\<close> on the concrete subnets unfolds.\<close>

lemmas net_example_defs = Build_def build_vpc_def build_vpc_cidr_blocks_def build_dhcp_def
  build_public_route_table_def subnet_step_def subnet_task_def subnet_tags_def zone_step_def
  build_egress_def build_private_routes_def AddTask_def go_range_def
  allSubnetsUnmanaged_def allSubnetsShared_def allSubnetsSharedInZone_def bool_at_def isUnmanaged_def
  net_env_def builder_with_def no_tasks_def shared_private_def owned_private_def
  owned_private_nat_def unmanaged_private_def utility_subnet_def odd_subnet_def
  owned_private_b_def owned_private_nat_b_def
  SubnetTypePrivate_def SubnetTypePublic_def SubnetTypeUtility_def EgressExternal_def
  TopologyPublic_def fi_String_def fi_Bool_def Let_def

subsection \<open>Execution planner\<close>

lemma wave_index_in:
  "t \<in> set (concat ws) \<Longrightarrow> wave_index ws t < length ws \<and> t \<in> set (ws ! wave_index ws t)"
  by (induction ws) auto

lemma wave_index_unique:
  "distinct (concat ws) \<Longrightarrow> i < length ws \<Longrightarrow> t \<in> set (ws ! i) \<Longrightarrow> wave_index ws t = i"
proof (induction ws arbitrary: i)
  case Nil
  then show ?case by simp
next
  case (Cons w ws)
  show ?case
  proof (cases i)
    case 0
    with Cons.prems show ?thesis by simp
  next
    case (Suc j)
    with Cons.prems have j: "j < length ws" "t \<in> set (ws ! j)" by auto
    then have "t \<in> set (concat ws)" using nth_mem[OF j(1)] by auto
    with Cons.prems(1) have "t \<notin> set w" by auto
    moreover from Cons.IH[OF _ j] Cons.prems(1) have "wave_index ws t = j" by simp
    ultimately show ?thesis using Suc by simp
  qed
qed

lemma exactly_one_wave:
  assumes "distinct (concat ws)" "t \<in> set (concat ws)"
  shows "\<exists>!i. i < length ws \<and> t \<in> set (ws ! i)"
proof (rule ex1I[of _ "wave_index ws t"])
  show "wave_index ws t < length ws \<and> t \<in> set (ws ! wave_index ws t)"
    using assms(2) by (rule wave_index_in)
next
  fix i assume "i < length ws \<and> t \<in> set (ws ! i)"
  with assms(1) show "i = wave_index ws t"
    using wave_index_unique[of ws i t] by simp
qed

lemma ready_nonempty:
  assumes "ts \<noteq> []" "\<forall>e\<in>set es. fst e \<in> set ts" "acyclic (set es)"
  shows "ready es ts \<noteq> []"
proof -
  have "wf (set es)" using assms(3) by (simp add: finite_acyclic_wf)
  moreover from assms(1) obtain x where "x \<in> set ts" by (cases ts) auto
  ultimately obtain z where z: "z \<in> set ts" "\<And>y. (y, z) \<in> set es \<Longrightarrow> y \<notin> set ts"
    unfolding wf_eq_minimal by blast
  have "\<forall>e\<in>set es. snd e \<noteq> z"
  proof
    fix e assume e: "e \<in> set es"
    show "snd e \<noteq> z"
    proof
      assume "snd e = z"
      with e have "(fst e, z) \<in> set es" by (metis prod.collapse)
      with z(2) have "fst e \<notin> set ts" by blast
      with assms(2) e show False by blast
    qed
  qed
  with z(1) have "z \<in> set (ready es ts)" by (simp add: ready_def)
  then show ?thesis by auto
qed

lemma plan_waves_layers:
  assumes "distinct ts" "\<forall>e\<in>set es. fst e \<in> set ts \<and> snd e \<in> set ts" "acyclic (set es)"
  shows "\<exists>ws. plan_waves es ts = Inr ws \<and> distinct (concat ws) \<and> set (concat ws) = set ts
           \<and> (\<forall>e\<in>set es. wave_index ws (fst e) < wave_index ws (snd e))"
  using assms
proof (induction es ts rule: plan_waves.induct)
  case (1 es ts)
  show ?case
  proof (cases "ts = []")
    case True
    with "1.prems"(2) have "es = []" by (cases es) auto
    with True show ?thesis by simp
  next
    case False
    define w where "w = ready es ts"
    define es' where "es' = remove_outgoing w es"
    define ts' where "ts' = filter (\<lambda>t. t \<notin> set w) ts"
    have w_ne: "w \<noteq> []"
      unfolding w_def using False "1.prems" by (intro ready_nonempty) auto
    have w_sub: "set w \<subseteq> set ts" by (auto simp: w_def ready_def)
    have no_in: "\<And>e. e \<in> set es \<Longrightarrow> snd e \<notin> set w" by (auto simp: w_def ready_def)
    have d': "distinct ts'" using "1.prems"(1) by (simp add: ts'_def)
    have e': "\<forall>e\<in>set es'. fst e \<in> set ts' \<and> snd e \<in> set ts'"
      using "1.prems"(2) no_in by (auto simp: es'_def ts'_def remove_outgoing_def)
    have a': "acyclic (set es')"
      by (rule acyclic_subset[OF "1.prems"(3)]) (auto simp: es'_def remove_outgoing_def)
    from "1.IH"[OF False w_ne[unfolded w_def], folded w_def, folded es'_def ts'_def, OF d' e' a']
    obtain ws' where ws': "plan_waves es' ts' = Inr ws'" "distinct (concat ws')"
      "set (concat ws') = set ts'"
      "\<forall>e\<in>set es'. wave_index ws' (fst e) < wave_index ws' (snd e)"
      by blast
    have eq: "plan_waves es ts = Inr (w # ws')"
      using False w_ne ws'(1)
      by (subst plan_waves.simps) (simp add: w_def es'_def ts'_def)
    have dist: "distinct (concat (w # ws'))"
      using ws'(2,3) "1.prems"(1) by (auto simp: w_def ready_def ts'_def)
    have sets: "set (concat (w # ws')) = set ts"
      using ws'(3) w_sub by (auto simp: ts'_def)
    have order: "\<forall>e\<in>set es. wave_index (w # ws') (fst e) < wave_index (w # ws') (snd e)"
    proof
      fix e assume e: "e \<in> set es"
      show "wave_index (w # ws') (fst e) < wave_index (w # ws') (snd e)"
      proof (cases "fst e \<in> set w")
        case True
        with no_in[OF e] show ?thesis by simp
      next
        case False
        with e have "e \<in> set es'" by (simp add: es'_def remove_outgoing_def)
        with ws'(4) False no_in[OF e] show ?thesis by simp
      qed
    qed
    from eq dist sets order show ?thesis by blast
  qed
qed

lemma in_walk_fields:
  "a \<in> set (walk_fields fs) \<longleftrightarrow> (\<exists>f\<in>set fs. a \<in> set (field_links (snd f)))"
  by (auto simp: walk_fields_def)

lemma in_dependency_edges:
  "(a, n) \<in> set (dependency_edges tm)
     \<longleftrightarrow> (\<exists>t. (n, t) \<in> set tm \<and> a \<in> set (walk_fields (task_fields t)))"
  by (force simp: dependency_edges_def)

lemma snd_dependency_edges: "e \<in> set (dependency_edges tm) \<Longrightarrow> snd e \<in> set (map fst tm)"
  by (force simp: dependency_edges_def)

lemma no_reference_errors:
  assumes dangling: "fst ` set (dependency_edges tm) \<subseteq> set (map fst tm)"
    and self: "\<forall>n. (n, n) \<notin> set (dependency_edges tm)"
  shows "reference_errors tm = []"
proof -
  have "field_errors (map fst tm) (fst entry) f = []"
    if entry: "entry \<in> set tm" and f: "f \<in> set (task_fields (snd entry))" for entry f
  proof -
    have "a \<noteq> fst entry \<and> a \<in> set (map fst tm)" if a: "a \<in> set (field_links (snd f))" for a
    proof -
      from entry have "(fst entry, snd entry) \<in> set tm" by simp
      moreover from a f have "a \<in> set (walk_fields (task_fields (snd entry)))"
        by (auto simp: in_walk_fields)
      ultimately have e: "(a, fst entry) \<in> set (dependency_edges tm)"
        unfolding in_dependency_edges by blast
      with self have "a \<noteq> fst entry" by auto
      moreover from e dangling have "a \<in> set (map fst tm)" by force
      ultimately show ?thesis by simp
    qed
    then show ?thesis by (simp add: field_errors_def)
  qed
  then show ?thesis by (simp add: reference_errors_def)
qed

text \<open>
  C1. For every acyclic Task Map (unique names, no dangling reference, no cycle among the
  dependency edges) the planner succeeds with a wave sequence in which every task of the
  map is in exactly one wave, the waves hold tasks of the map only, and for every edge
  from \<open>a\<close> to \<open>b\<close> the wave of \<open>a\<close> comes strictly before the wave of \<open>b\<close>.
\<close>

theorem planner_layers_acyclic_task_map:
  assumes names: "distinct (map fst tm)"
    and dangling: "fst ` set (dependency_edges tm) \<subseteq> set (map fst tm)"
    and acyc: "acyclic (set (dependency_edges tm))"
  shows "\<exists>ws. planner tm = Inr ws
    \<and> (\<forall>t. t \<in> set (map fst tm) \<longrightarrow> (\<exists>!i. i < length ws \<and> t \<in> set (ws ! i)))
    \<and> (\<forall>i t. i < length ws \<and> t \<in> set (ws ! i) \<longrightarrow> t \<in> set (map fst tm))
    \<and> (\<forall>a b. (a, b) \<in> set (dependency_edges tm) \<longrightarrow>
          (\<exists>i j. i < j \<and> j < length ws \<and> a \<in> set (ws ! i) \<and> b \<in> set (ws ! j)))"
proof -
  let ?es = "dependency_edges tm" and ?ts = "map fst tm"
  have self: "\<forall>n. (n, n) \<notin> set ?es"
    using acyc by (auto simp: acyclic_def)
  have an: "analyze tm = Inr ?es"
    using no_reference_errors[OF dangling self] by (simp add: analyze_def)
  have within: "\<forall>e\<in>set ?es. fst e \<in> set ?ts \<and> snd e \<in> set ?ts"
    using dangling snd_dependency_edges[of _ tm] by blast
  from plan_waves_layers[OF names within acyc] obtain ws where ws:
    "plan_waves ?es ?ts = Inr ws" "distinct (concat ws)" "set (concat ws) = set ?ts"
    "\<forall>e\<in>set ?es. wave_index ws (fst e) < wave_index ws (snd e)"
    by blast
  have p: "planner tm = Inr ws" using an ws(1) by (simp add: planner_def)
  have one: "\<forall>t. t \<in> set ?ts \<longrightarrow> (\<exists>!i. i < length ws \<and> t \<in> set (ws ! i))"
  proof (intro allI impI)
    fix t assume "t \<in> set ?ts"
    with ws(3) have "t \<in> set (concat ws)" by simp
    with ws(2) show "\<exists>!i. i < length ws \<and> t \<in> set (ws ! i)"
      by (rule exactly_one_wave)
  qed
  have only: "\<forall>i t. i < length ws \<and> t \<in> set (ws ! i) \<longrightarrow> t \<in> set ?ts"
  proof (intro allI impI)
    fix i t assume "i < length ws \<and> t \<in> set (ws ! i)"
    then have "t \<in> set (concat ws)" using nth_mem[of i ws] by auto
    with ws(3) show "t \<in> set ?ts" by simp
  qed
  have order: "\<forall>a b. (a, b) \<in> set ?es \<longrightarrow>
          (\<exists>i j. i < j \<and> j < length ws \<and> a \<in> set (ws ! i) \<and> b \<in> set (ws ! j))"
  proof (intro allI impI)
    fix a b assume e: "(a, b) \<in> set ?es"
    with within ws(3) have "a \<in> set (concat ws)" "b \<in> set (concat ws)" by force+
    then have "wave_index ws a < length ws \<and> a \<in> set (ws ! wave_index ws a)"
      "wave_index ws b < length ws \<and> b \<in> set (ws ! wave_index ws b)"
      by (simp_all only: wave_index_in)
    moreover from ws(4) e have "wave_index ws a < wave_index ws b" by force
    ultimately show "\<exists>i j. i < j \<and> j < length ws \<and> a \<in> set (ws ! i) \<and> b \<in> set (ws ! j)"
      by blast
  qed
  from p one only order show ?thesis by blast
qed

text \<open>The theorem at the first scenario of the specification.\<close>

lemma scenario1_edges:
  "dependency_edges scenario1 = [(''Network'', ''Subnet''), (''Subnet'', ''Instance'')]"
  by (simp add: scenario1_def dependency_edges_def walk_fields_def)

lemma scenario1_plan:
  "planner scenario1 = Inr [[''Network''], [''Subnet''], [''Instance'']]"
  by code_simp

theorem planner_layers_witness:
  "distinct (map fst scenario1)
   \<and> fst ` set (dependency_edges scenario1) \<subseteq> set (map fst scenario1)
   \<and> acyclic (set (dependency_edges scenario1))
   \<and> planner scenario1 = Inr [[''Network''], [''Subnet''], [''Instance'']]
   \<and> (\<exists>i j. i < j \<and> j < length [[''Network''], [''Subnet''], [''Instance'']]
         \<and> ''Network'' \<in> set ([[''Network''], [''Subnet''], [''Instance'']] ! i)
         \<and> ''Subnet'' \<in> set ([[''Network''], [''Subnet''], [''Instance'']] ! j))"
proof -
  have h1: "distinct (map fst scenario1)" by (simp add: scenario1_def)
  have h2: "fst ` set (dependency_edges scenario1) \<subseteq> set (map fst scenario1)"
    by (simp add: scenario1_edges) (simp add: scenario1_def)
  have h3: "acyclic (set (dependency_edges scenario1))"
    unfolding scenario1_edges by code_simp
  have e: "(''Network'', ''Subnet'') \<in> set (dependency_edges scenario1)"
    by (simp add: scenario1_edges)
  from planner_layers_acyclic_task_map[OF h1 h2 h3] e scenario1_plan
  have "\<exists>i j. i < j \<and> j < length [[''Network''], [''Subnet''], [''Instance'']]
         \<and> ''Network'' \<in> set ([[''Network''], [''Subnet''], [''Instance'']] ! i)
         \<and> ''Subnet'' \<in> set ([[''Network''], [''Subnet''], [''Instance'']] ! j)"
    by (metis sum.inject(2))
  with h1 h2 h3 scenario1_plan show ?thesis by blast
qed

subsection \<open>Policy.AsJSON\<close>

lemma AsJSON_appends:
  "Statement (snd (AsJSON E p)) =
     Statement p
     @ (if unconditionalAction p \<noteq> {}
        then [\<lparr>Effect = StatementEffectAllow,
               Principal = \<lparr>Federated = [], Service = []\<rparr>,
               Action = stringorslice_Of E (sets_String_List (unconditionalAction p)),
               Resource = stringorslice_String E ''*'',
               Condition = []\<rparr>]
        else [])
     @ (if clusterTaggedAction p \<noteq> {}
        then [\<lparr>Effect = StatementEffectAllow,
               Principal = \<lparr>Federated = [], Service = []\<rparr>,
               Action = stringorslice_Of E (sets_String_List (clusterTaggedAction p)),
               Resource = stringorslice_String E ''*'',
               Condition =
                 [(''StringEquals'',
                   AnyStringMap [(''aws:ResourceTag/KubernetesCluster'', clusterName p)])]\<rparr>]
        else [])"
  by (simp add: AsJSON_def Let_def split: sum.splits)

lemma AsJSON_keeps_actions:
  "unconditionalAction (snd (AsJSON E p)) = unconditionalAction p"
  "clusterTaggedAction (snd (AsJSON E p)) = clusterTaggedAction p"
  by (simp_all add: AsJSON_def Let_def split: sum.splits)

text \<open>
  C2. \<open>AsJSON\<close> called a second time on the same policy: the bastion policy of cluster
  \<open>c\<close> holds one unconditional action and no statement. The first call leaves one
  statement in the policy, the second call two, whatever the environment; with the plain
  encoder the two calls return different strings.
\<close>

theorem AsJSON_second_call_differs:
  "(\<forall>E :: (string list, unit) iam_env.
      length (Statement (snd (AsJSON E bastion_policy))) = 1
      \<and> length (Statement (snd (AsJSON E (snd (AsJSON E bastion_policy))))) = 2)
   \<and> fst (AsJSON plain_env (snd (AsJSON plain_env bastion_policy))) \<noteq> fst (AsJSON plain_env bastion_policy)"
proof -
  have u: "unconditionalAction bastion_policy \<noteq> {}" "clusterTaggedAction bastion_policy = {}"
    "Statement bastion_policy = []"
    by (simp_all add: bastion_policy_def NodeRoleBastion_BuildAWSPolicy_def NewPolicy_def Let_def)
  have a: "length (Statement (snd (AsJSON E bastion_policy))) = 1
      \<and> length (Statement (snd (AsJSON E (snd (AsJSON E bastion_policy))))) = 2"
    for E :: "(string list, unit) iam_env"
    by (simp add: AsJSON_appends AsJSON_keeps_actions u)
  have b: "fst (AsJSON plain_env (snd (AsJSON plain_env bastion_policy))) \<noteq> fst (AsJSON plain_env bastion_policy)"
    by code_simp
  from a b show ?thesis by blast
qed

subsection \<open>Dereferencing links\<close>

text \<open>
  C4. Dereferencing a link to a field of task \<open>T\<close> is an error while \<open>T\<close> is not
  Done, and yields the value \<open>T\<close> published for the field once it is Done. In
  particular \<open>PolicyResource.Open\<close> returns the error \<open>DNS ZoneID not set\<close>, and no
  document, when its DNS zone has no \<open>ZoneID\<close> (nil or empty); when the \<open>ZoneID\<close> is
  set, \<open>Open\<close> gives what it gives for a resource without a link whose builder has
  that id as \<open>HostedZoneID\<close>.
\<close>

theorem link_dereference:
  "(run T = Some st \<and> status st \<noteq> Done \<longrightarrow> dereference run T F = Inl (NotRendered T))
   \<and> (run T = Some st \<and> status st = Done \<and> published st F = Some v \<longrightarrow>
        dereference run T F = Inr v)
   \<and> (DNSZone b = Some z \<and> fi_StringValue (ZoneID z) = [] \<longrightarrow>
        Open E b = Inl (Errorf ''DNS ZoneID not set'' []))
   \<and> (DNSZone b = Some z \<and> ZoneID z = Some zid \<and> zid \<noteq> [] \<longrightarrow>
        Open E b = Open E (b\<lparr>Builder := (Builder b)\<lparr>HostedZoneID := zid\<rparr>, DNSZone := None\<rparr>))"
  by (simp add: dereference_def Open_def Let_def fi_StringValue_def)

text \<open>The theorem at a pending and at a done DNS zone.\<close>

theorem link_dereference_witness:
  "dereference pending_run ''zone'' ''ZoneID'' = Inl (NotRendered ''zone'')
   \<and> dereference done_run ''zone'' ''ZoneID'' = Inr ''Z1''
   \<and> Open plain_env pending_zone_resource = Inl (Errorf ''DNS ZoneID not set'' [])
   \<and> Open plain_env done_zone_resource
       = Open plain_env \<lparr>Builder = node_builder\<lparr>HostedZoneID := ''Z1''\<rparr>, DNSZone = None\<rparr>"
proof -
  note before = link_dereference[THEN conjunct1]
    and after = link_dereference[THEN conjunct2, THEN conjunct1]
    and unset = link_dereference[THEN conjunct2, THEN conjunct2, THEN conjunct1]
    and set = link_dereference[THEN conjunct2, THEN conjunct2, THEN conjunct2]
  have a: "dereference pending_run ''zone'' ''ZoneID'' = Inl (NotRendered ''zone'')"
    using before[of pending_run "''zone''" "\<lparr>status = Pending, published = Map.empty\<rparr>"
            "''ZoneID''"]
    by (simp add: pending_run_def)
  have b: "dereference done_run ''zone'' ''ZoneID'' = Inr ''Z1''"
    using after[of done_run "''zone''"
            "\<lparr>status = Done, published = [''ZoneID'' \<mapsto> ''Z1'']\<rparr>" "''ZoneID''" "''Z1''"]
    by (simp add: done_run_def)
  have c: "Open plain_env pending_zone_resource = Inl (Errorf ''DNS ZoneID not set'' [])"
    using unset[of pending_zone_resource "\<lparr>DNSZone.Name = Some ''c'', ZoneID = None\<rparr>" plain_env]
    by (simp add: pending_zone_resource_def fi_StringValue_def)
  have d: "Open plain_env done_zone_resource
       = Open plain_env \<lparr>Builder = node_builder\<lparr>HostedZoneID := ''Z1''\<rparr>, DNSZone = None\<rparr>"
    using set[of done_zone_resource "\<lparr>DNSZone.Name = Some ''c'', ZoneID = Some ''Z1''\<rparr>" "''Z1''"
            plain_env]
    by (simp add: done_zone_resource_def)
  from a b c d show ?thesis by blast
qed

subsection \<open>NetworkModelBuilder.Build: the subnets\<close>

lemma AddTask_tasks: "Tasks (AddTask t c) = Tasks c @ [t]"
  by (simp add: AddTask_def)

lemma subnet_step_adds_subnet:
  "subnet_step E b p s st = (e, c', m') \<Longrightarrow>
   \<exists>added. Tasks c' = Tasks (fst st) @ TaskSubnet (subnet_task E b s) # added"
  by (auto simp: subnet_step_def Let_def AddTask_tasks split: if_splits)

lemma subnet_step_known:
  "fst (subnet_step E b p s st) = None \<longleftrightarrow> known_type s"
  by (auto simp: subnet_step_def Let_def known_type_def split: if_splits)

lemma subnets_loop_keeps:
  "subnets_loop E b p xs st = (e, c', m') \<Longrightarrow> set (Tasks (fst st)) \<subseteq> set (Tasks c')"
proof (induction xs arbitrary: st)
  case Nil
  then show ?case by auto
next
  case (Cons x xs)
  obtain e1 c1 m1 where s: "subnet_step E b p x st = (e1, c1, m1)"
    by (metis prod_cases3)
  from subnet_step_adds_subnet[OF s] have k: "set (Tasks (fst st)) \<subseteq> set (Tasks c1)" by auto
  show ?case
  proof (cases e1)
    case None
    with Cons.prems s have "subnets_loop E b p xs (c1, m1) = (e, c', m')" by simp
    from Cons.IH[OF this] k show ?thesis by auto
  next
    case (Some err)
    with Cons.prems s k show ?thesis by auto
  qed
qed

lemma subnets_loop_reaches:
  assumes "i < length xs" and "\<forall>j<i. known_type (xs ! j)"
  shows "TaskSubnet (subnet_task E b (xs ! i))
           \<in> set (Tasks (fst (snd (subnets_loop E b p xs st))))"
  using assms
proof (induction xs arbitrary: i st)
  case Nil
  then show ?case by simp
next
  case (Cons x xs)
  obtain e1 c1 m1 where s: "subnet_step E b p x st = (e1, c1, m1)"
    by (metis prod_cases3)
  from subnet_step_adds_subnet[OF s]
  have here: "TaskSubnet (subnet_task E b x) \<in> set (Tasks c1)" by auto
  show ?case
  proof (cases i)
    case 0
    show ?thesis
    proof (cases e1)
      case None
      obtain e c' m' where l: "subnets_loop E b p xs (c1, m1) = (e, c', m')"
        by (metis prod_cases3)
      from subnets_loop_keeps[OF l] here have "TaskSubnet (subnet_task E b x) \<in> set (Tasks c')"
        by auto
      with None s l 0 show ?thesis by simp
    next
      case (Some err)
      with s here 0 show ?thesis by simp
    qed
  next
    case (Suc k)
    with Cons.prems have "known_type x" by auto
    then have "e1 = None" using subnet_step_known[of E b p x st] s by simp
    moreover from Suc Cons.prems have "k < length xs" "\<forall>j<k. known_type (xs ! j)" by auto
    ultimately show ?thesis
      using Cons.IH[of k "(c1, m1)"] s Suc by simp
  qed
qed

lemma subnets_loop_all_known:
  "fst (subnets_loop E b p xs st) = None \<Longrightarrow> \<forall>x\<in>set xs. known_type x"
proof (induction xs arbitrary: st)
  case Nil
  then show ?case by simp
next
  case (Cons x xs)
  obtain e1 c1 m1 where s: "subnet_step E b p x st = (e1, c1, m1)"
    by (metis prod_cases3)
  show ?case
  proof (cases e1)
    case None
    with s have "known_type x" using subnet_step_known[of E b p x st] by simp
    moreover from Cons.prems s None have "fst (subnets_loop E b p xs (c1, m1)) = None" by simp
    ultimately show ?thesis using Cons.IH by auto
  next
    case (Some err)
    with Cons.prems s show ?thesis by simp
  qed
qed

lemma zone_step_keeps:
  "zone_step E b entry c = (e, c') \<Longrightarrow> set (Tasks c) \<subseteq> set (Tasks c')"
  by (auto simp: zone_step_def Let_def build_egress_def build_private_routes_def AddTask_tasks
           split: if_splits sum.splits option.splits prod.splits)

lemma zones_loop_keeps:
  "zones_loop E b entries c = (e, c') \<Longrightarrow> set (Tasks c) \<subseteq> set (Tasks c')"
proof (induction entries arbitrary: c)
  case Nil
  then show ?case by simp
next
  case (Cons entry entries)
  obtain e1 c1 where s: "zone_step E b entry c = (e1, c1)" by (cases "zone_step E b entry c")
  note k = zone_step_keeps[OF s]
  show ?case
  proof (cases e1)
    case None
    with Cons.prems s have "zones_loop E b entries c1 = (e, c')" by simp
    from Cons.IH[OF this] k show ?thesis by auto
  next
    case (Some err)
    with Cons.prems s k show ?thesis by auto
  qed
qed

lemma Build_stages:
  "Build E b c =
     (case after_subnets E b c of
        (Some err, c5, infoByZone) \<Rightarrow> (Some err, c5)
      | (None, c5, infoByZone) \<Rightarrow>
          zones_loop E b (go_range infoByZone (zones_order E infoByZone)) c5)"
  by (simp add: Build_def after_subnets_def before_subnets_def Let_def split: prod.splits)

lemma Build_keeps_subnet_tasks:
  "set (Tasks (fst (snd (after_subnets E b c)))) \<subseteq> set (Tasks (snd (Build E b c)))"
proof -
  obtain e c5 m where l: "after_subnets E b c = (e, c5, m)"
    by (metis prod_cases3)
  show ?thesis
  proof (cases e)
    case None
    obtain e' c6 where z: "zones_loop E b (go_range m (zones_order E m)) c5 = (e', c6)"
      by (cases "zones_loop E b (go_range m (zones_order E m)) c5")
    from None l z have "Build E b c = (e', c6)"
      by (simp add: Build_stages)
    with zones_loop_keeps[OF z] l show ?thesis by simp
  next
    case (Some err)
    with l have "Build E b c = (Some err, c5)"
      by (simp add: Build_stages)
    with l show ?thesis by simp
  qed
qed

lemma Build_ok_subnets_ok:
  "fst (Build E b c) = None \<Longrightarrow> fst (after_subnets E b c) = None"
  by (auto simp: Build_stages split: prod.splits option.splits)

lemma Build_ok_all_known:
  assumes "fst (Build E b c) = None"
  shows "\<forall>x\<in>set (Subnets (Spec (NetworkModelBuilder.Cluster b))). known_type x"
  using Build_ok_subnets_ok[OF assms] unfolding after_subnets_def
  by (rule subnets_loop_all_known)

text \<open>
  C5, as amended. For every subnet spec with a non-empty \<open>ProviderID\<close> that the loop
  over the subnets reaches (every subnet before it has a known type; this is so whenever
  \<open>Build\<close> returns no error), \<open>Build\<close> adds a Subnet task named after the subnet and
  the cluster with \<open>Shared\<close> set to true and \<open>ID\<close> set to that \<open>ProviderID\<close>.
\<close>

theorem shared_subnet_task:
  assumes i: "i < length (Subnets (Spec (NetworkModelBuilder.Cluster b)))"
    and shared: "ProviderID (Subnets (Spec (NetworkModelBuilder.Cluster b)) ! i) \<noteq> []"
    and reached: "(\<forall>j<i. known_type (Subnets (Spec (NetworkModelBuilder.Cluster b)) ! j))
                  \<or> fst (Build E b c) = None"
  shows "\<exists>t. TaskSubnet t \<in> set (Tasks (snd (Build E b c)))
    \<and> Subnet.Name t = Some (ClusterSubnetSpec.Name (Subnets (Spec (NetworkModelBuilder.Cluster b)) ! i)
                              @ ''.'' @ ClusterName E)
    \<and> Subnet.Shared t = Some True
    \<and> Subnet.ID t = Some (ProviderID (Subnets (Spec (NetworkModelBuilder.Cluster b)) ! i))"
proof -
  let ?subnets = "Subnets (Spec (NetworkModelBuilder.Cluster b))"
  let ?t = "subnet_task E b (?subnets ! i)"
  have known: "\<forall>j<i. known_type (?subnets ! j)"
    using reached i Build_ok_all_known[of E b c] by (auto simp: all_set_conv_all_nth)
  from subnets_loop_reaches[OF i known]
  have "TaskSubnet ?t \<in> set (Tasks (fst (snd (after_subnets E b c))))"
    unfolding after_subnets_def .
  with Build_keeps_subnet_tasks[of E b c]
  have "TaskSubnet ?t \<in> set (Tasks (snd (Build E b c)))" by blast
  moreover have "Subnet.Name ?t = Some (ClusterSubnetSpec.Name (?subnets ! i) @ ''.'' @ ClusterName E)"
    "Subnet.Shared ?t = Some True" "Subnet.ID ?t = Some (ProviderID (?subnets ! i))"
    using shared by (simp_all add: subnet_task_def Let_def fi_String_def fi_Bool_def)
  ultimately show ?thesis by blast
qed

text \<open>
  The theorem at a cluster whose second subnet is shared: the subnet before it is a
  private subnet, of a known type.
\<close>

theorem shared_subnet_task_witness:
  "known_type owned_private
   \<and> ProviderID shared_private = ''subnet-1''
   \<and> (\<exists>t. TaskSubnet t \<in> set (Tasks (snd (Build net_env
        (builder_with [owned_private, shared_private, unmanaged_private, utility_subnet]) no_tasks)))
     \<and> Subnet.Name t = Some ''shared.c.example.com''
     \<and> Subnet.Shared t = Some True
     \<and> Subnet.ID t = Some ''subnet-1'')"
proof -
  let ?b = "builder_with [owned_private, shared_private, unmanaged_private, utility_subnet]"
  have s: "Subnets (Spec (NetworkModelBuilder.Cluster ?b))
             = [owned_private, shared_private, unmanaged_private, utility_subnet]"
    by (simp add: builder_with_def)
  have k: "known_type owned_private"
    by (simp add: known_type_def owned_private_def)
  have i: "1 < length (Subnets (Spec (NetworkModelBuilder.Cluster ?b)))"
    by (simp add: s)
  have p: "ProviderID (Subnets (Spec (NetworkModelBuilder.Cluster ?b)) ! 1) \<noteq> []"
    by (simp add: builder_with_def shared_private_def)
  have r: "(\<forall>j<1. known_type (Subnets (Spec (NetworkModelBuilder.Cluster ?b)) ! j))
           \<or> fst (Build net_env ?b no_tasks) = None"
    using k by (simp add: builder_with_def)
  have n: "ClusterSubnetSpec.Name (Subnets (Spec (NetworkModelBuilder.Cluster ?b)) ! 1)
             @ ''.'' @ ClusterName net_env = ''shared.c.example.com''"
    "ProviderID (Subnets (Spec (NetworkModelBuilder.Cluster ?b)) ! 1) = ''subnet-1''"
    by (simp_all add: builder_with_def shared_private_def net_env_def)
  have q: "ProviderID shared_private = ''subnet-1''"
    by (simp add: shared_private_def)
  from shared_subnet_task[OF i p r]
  have "\<exists>t. TaskSubnet t \<in> set (Tasks (snd (Build net_env ?b no_tasks)))
     \<and> Subnet.Name t = Some ''shared.c.example.com''
     \<and> Subnet.Shared t = Some True
     \<and> Subnet.ID t = Some ''subnet-1''"
    unfolding n .
  with k q show ?thesis by blast
qed

text \<open>
  The condition that the loop reaches the subnet cannot be dropped: when a subnet of
  unknown type comes before a shared subnet, \<open>Build\<close> returns the error of the unknown
  type from within the loop, and the only Subnet task added is the one of the subnet of
  unknown type: no Subnet task carries the \<open>ProviderID\<close> of the shared subnet, and none
  is marked as shared.
\<close>

theorem shared_subnet_task_counterexample:
  "ProviderID (Subnets (Spec (NetworkModelBuilder.Cluster (builder_with [odd_subnet, shared_private]))) ! 1)
      = ''subnet-1''
   \<and> fst (Build net_env (builder_with [odd_subnet, shared_private]) no_tasks)
        = Some (Errorf ''subnet %q has unknown type %q'' [ArgString ''odd'', ArgString ''Odd''])
   \<and> \<not> (\<exists>t. TaskSubnet t \<in> set (Tasks (snd (Build net_env
                (builder_with [odd_subnet, shared_private]) no_tasks)))
            \<and> (Subnet.ID t = Some ''subnet-1'' \<or> Subnet.Shared t = Some True))"
proof -
  let ?b = "builder_with [odd_subnet, shared_private]"
  have 1: "ProviderID (Subnets (Spec (NetworkModelBuilder.Cluster ?b)) ! 1) = ''subnet-1''"
    by (simp add: builder_with_def shared_private_def)
  have 2: "fst (Build net_env ?b no_tasks)
        = Some (Errorf ''subnet %q has unknown type %q'' [ArgString ''odd'', ArgString ''Odd''])"
    by (simp add: net_example_defs)
  have 3: "\<not> (\<exists>t. TaskSubnet t \<in> set (Tasks (snd (Build net_env ?b no_tasks)))
            \<and> (Subnet.ID t = Some ''subnet-1'' \<or> Subnet.Shared t = Some True))"
    by (simp add: net_example_defs Subnet_zero_def)
  from 1 2 3 show ?thesis by blast
qed

subsection \<open>ForwardingRule lifecycle accessors\<close>

text \<open>
  C6. For every task with the lifecycle marker (here \<open>ForwardingRule\<close>) and every
  lifecycle value \<open>l\<close>: \<open>SetLifecycle l\<close> followed by \<open>GetLifecycle\<close> returns
  exactly \<open>l\<close>, and \<open>SetLifecycle\<close> leaves every other field (the name and all the
  fields of the extension) as it was.
\<close>

theorem ForwardingRule_set_get_lifecycle:
  "GetLifecycle (SetLifecycle l t) = l
   \<and> GetName (SetLifecycle l t) = GetName t
   \<and> ForwardingRule.Name (SetLifecycle l t) = ForwardingRule.Name t
   \<and> ForwardingRule.more (SetLifecycle l t) = ForwardingRule.more t"
  by (simp add: GetLifecycle_def SetLifecycle_def GetName_def)

subsection \<open>TerraformTarget.Finish\<close>

lemma write_files_log:
  "write_files E out log kvs = (err, log') \<Longrightarrow>
   \<exists>tr. log' = log @ tr \<and> prefix tr (planned_calls E out kvs)
      \<and> (err = None \<longrightarrow> tr = planned_calls E out kvs)
      \<and> (err \<noteq> None \<longrightarrow> tr \<noteq> [])
      \<and> (\<forall>ys c zs. tr = ys @ c # zs \<longrightarrow>
            ((os_result E (log @ ys) c \<noteq> None) = (zs = [] \<and> err \<noteq> None)))"
proof (induction kvs arbitrary: log err log')
  case Nil
  then show ?case by (simp add: planned_calls_def)
next
  case (Cons kv kvs)
  obtain rel c where kv: "kv = (rel, c)" by (cases kv)
  define p where "p = path_Join E out rel"
  define mk where "mk = MkdirAll (path_Dir E p) mode_0755"
  define wr where "wr = WriteFile p c mode_0644"
  have pc: "planned_calls E out (kv # kvs) = mk # wr # planned_calls E out kvs"
    by (simp add: planned_calls_def file_calls_def kv mk_def wr_def p_def)
  show ?case
  proof (cases "os_result E log mk")
    case (Some e)
    with Cons.prems have r: "err \<noteq> None" "log' = log @ [mk]"
      by (auto simp: kv Let_def mk_def p_def)
    show ?thesis
      apply (rule exI[of _ "[mk]"])
      using r Some by (auto simp: pc Cons_eq_append_conv)
  next
    case None
    note mk_ok = None
    show ?thesis
    proof (cases "os_result E (log @ [mk]) wr")
      case (Some e)
      with Cons.prems mk_ok have r: "err \<noteq> None" "log' = log @ [mk, wr]"
        by (auto simp: kv Let_def mk_def p_def wr_def)
      show ?thesis
        apply (rule exI[of _ "[mk, wr]"])
        using r Some mk_ok by (auto simp: pc Cons_eq_append_conv)
    next
      case None
      with Cons.prems mk_ok have "write_files E out (log @ [mk, wr]) kvs = (err, log')"
        by (auto simp: kv Let_def mk_def p_def wr_def)
      from Cons.IH[OF this] obtain tr where tr:
        "log' = (log @ [mk, wr]) @ tr" "prefix tr (planned_calls E out kvs)"
        "err = None \<longrightarrow> tr = planned_calls E out kvs"
        "err \<noteq> None \<longrightarrow> tr \<noteq> []"
        "\<forall>ys c zs. tr = ys @ c # zs \<longrightarrow>
            ((os_result E ((log @ [mk, wr]) @ ys) c \<noteq> None) = (zs = [] \<and> err \<noteq> None))"
        by blast
      have "\<forall>ys c zs. mk # wr # tr = ys @ c # zs \<longrightarrow>
            ((os_result E (log @ ys) c \<noteq> None) = (zs = [] \<and> err \<noteq> None))"
      proof (intro allI impI)
        fix ys c zs assume eq: "mk # wr # tr = ys @ c # zs"
        show "(os_result E (log @ ys) c \<noteq> None) = (zs = [] \<and> err \<noteq> None)"
        proof (cases ys)
          case Nil
          with eq mk_ok show ?thesis by auto
        next
          case (Cons y ys1)
          note c1 = Cons
          show ?thesis
          proof (cases ys1)
            case Nil
            with c1 eq None tr(4) show ?thesis by auto
          next
            case (Cons y2 ys2)
            with c1 eq have "tr = ys2 @ c # zs" "ys = mk # wr # ys2" by auto
            with tr(5) show ?thesis by auto
          qed
        qed
      qed
      then show ?thesis
        apply -
        apply (rule exI[of _ "mk # wr # tr"])
        using tr by (simp add: pc)
    qed
  qed
qed

lemma set_go_range:
  "range_order m order \<Longrightarrow> set (go_range m order) = {(k, v). m k = Some v}"
  by (force simp: go_range_def range_order_def List.map_filter_def image_iff dom_def)

lemma planned_calls_write:
  "(rel, c) \<in> set kvs \<Longrightarrow>
   WriteFile (path_Join E out rel) c mode_0644 \<in> set (planned_calls E out kvs)"
  by (force simp: planned_calls_def file_calls_def)

text \<open>
  C7. \<open>Finish\<close> first renders the terraform document; if that fails it returns the
  renderer's error and touches nothing. Otherwise it visits the \<open>Files\<close> map and, for
  each relative path, creates the directory of \<open>path.Join(outDir, relativePath)\<close> and
  writes the contents there. It returns nil only if the renderer and every call
  succeeded, and then every key of \<open>Files\<close> has been written at its joined path. The
  calls made are a prefix of the planned ones: a call that fails is the last one made,
  and the error returned is then non-nil.
\<close>

theorem Finish_writes_every_file:
  assumes render: "(if TerraformJSON_Enabled E then finishJSON E t else finishHCL2 E t) = (rerr, t')"
    and order: "range_order (Files t') (files_order E (Files t'))"
    and fin: "Finish E t taskMap = (err, t2, log)"
  shows "t2 = t'
    \<and> (rerr \<noteq> None \<longrightarrow> err = rerr \<and> log = [])
    \<and> (err = None \<longrightarrow> rerr = None
          \<and> log = planned_calls E (outDir t') (go_range (Files t') (files_order E (Files t')))
          \<and> (\<forall>rel c. Files t' rel = Some c \<longrightarrow>
                 WriteFile (path_Join E (outDir t') rel) c mode_0644 \<in> set log))
    \<and> (rerr = None \<longrightarrow>
          prefix log (planned_calls E (outDir t') (go_range (Files t') (files_order E (Files t'))))
          \<and> (err \<noteq> None \<longrightarrow> log \<noteq> [])
          \<and> (\<forall>ys c zs. log = ys @ c # zs \<longrightarrow>
                ((os_result E ys c \<noteq> None) = (zs = [] \<and> err \<noteq> None))))"
proof (cases rerr)
  case (Some e)
  with render fin show ?thesis
    by (auto simp: Finish_def Let_def split: if_splits)
next
  case None
  define kvs where "kvs = go_range (Files t') (files_order E (Files t'))"
  from None render fin have wf: "write_files E (outDir t') [] kvs = (err, log)" and t2: "t2 = t'"
    by (auto simp: Finish_def Let_def kvs_def split: if_splits prod.splits)
  from write_files_log[OF wf] have
    p: "prefix log (planned_calls E (outDir t') kvs)"
    and a: "err = None \<longrightarrow> log = planned_calls E (outDir t') kvs"
    and n: "err \<noteq> None \<longrightarrow> log \<noteq> []"
    and c: "\<forall>ys c zs. log = ys @ c # zs \<longrightarrow>
            ((os_result E ys c \<noteq> None) = (zs = [] \<and> err \<noteq> None))"
    by auto
  have w: "err = None \<longrightarrow> (\<forall>rel c. Files t' rel = Some c \<longrightarrow>
                 WriteFile (path_Join E (outDir t') rel) c mode_0644 \<in> set log)"
  proof (intro impI allI)
    fix rel c assume "err = None" "Files t' rel = Some c"
    then have "(rel, c) \<in> set kvs" and "log = planned_calls E (outDir t') kvs"
      using set_go_range[OF order] a by (auto simp: kvs_def)
    then show "WriteFile (path_Join E (outDir t') rel) c mode_0644 \<in> set log"
      by (simp add: planned_calls_write)
  qed
  from None t2 p a n c w show ?thesis
    unfolding kvs_def by blast
qed

text \<open>The theorem at the HCL2 environment: one file, written under \<open>out\<close>.\<close>

theorem Finish_writes_every_file_witness:
  "range_order (Files (snd (finishHCL2 hcl2_env empty_target))) (files_order hcl2_env (Files (snd (finishHCL2 hcl2_env empty_target))))
   \<and> fst (Finish hcl2_env empty_target ()) = None
   \<and> WriteFile ''out/kubernetes.tf'' ''locals {}'' mode_0644 \<in> set (snd (snd (Finish hcl2_env empty_target ())))"
proof -
  let ?t' = "snd (finishHCL2 hcl2_env empty_target)"
  have r: "(if TerraformJSON_Enabled hcl2_env then finishJSON hcl2_env empty_target else finishHCL2 hcl2_env empty_target) = (None, ?t')"
    by (simp add: hcl2_env_def)
  have o: "range_order (Files ?t') (files_order hcl2_env (Files ?t'))"
    by (simp add: hcl2_env_def empty_target_def range_order_def)
  have f0: "fst (Finish hcl2_env empty_target ()) = None" "fst (snd (Finish hcl2_env empty_target ())) = ?t'"
    by (simp_all add: Finish_def hcl2_env_def empty_target_def go_range_def Let_def)
  have f: "Finish hcl2_env empty_target () = (None, ?t', snd (snd (Finish hcl2_env empty_target ())))"
    using f0 by (metis prod.collapse)
  have k: "Files ?t' ''kubernetes.tf'' = Some ''locals {}''"
    by (simp add: hcl2_env_def empty_target_def)
  from Finish_writes_every_file[OF r o f] k
  have "WriteFile (path_Join hcl2_env (outDir ?t') ''kubernetes.tf'') ''locals {}'' mode_0644
          \<in> set (snd (snd (Finish hcl2_env empty_target ())))"
    by blast
  moreover have "path_Join hcl2_env (outDir ?t') ''kubernetes.tf'' = ''out/kubernetes.tf''"
    by (simp add: hcl2_env_def empty_target_def)
  ultimately show ?thesis using o f0 by simp
qed

subsection \<open>NetworkModelBuilder.Build: private subnets with mixed values\<close>





lemma not_private_simple [simp]:
  "\<not> zone_private_task E zone (TaskVPC v)"
  "\<not> zone_private_task E zone (TaskVPCAmazonIPv6CIDRBlock a)"
  "\<not> zone_private_task E zone (TaskVPCCIDRBlock k)"
  "\<not> zone_private_task E zone (TaskDHCPOptions d)"
  "\<not> zone_private_task E zone (TaskVPCDHCPOptionsAssociation da)"
  "\<not> zone_private_task E zone (TaskInternetGateway g)"
  "\<not> zone_private_task E zone (TaskSubnet s)"
  "\<not> zone_private_task E zone (TaskRouteTableAssociation ra)"
  "\<not> zone_private_task E zone (TaskInstance i)"
  by (simp_all add: zone_private_task_def)































subsection \<open>TerraformTarget.ProcessDeletions\<close>

text \<open>
  C9. \<open>ProcessDeletions\<close> returns false whatever the state of the target: with the
  terraform writer the engine leaves deletions to terraform.
\<close>

theorem ProcessDeletions_false: "\<forall>t. ProcessDeletions t = False"
  by (simp add: ProcessDeletions_def)

subsection \<open>Statement.MarshalJSON\<close>

lemma WriteLiteral_buffer:
  "WriteLiteral bytes_Buffer_Write b j =
     (if jw_err j \<noteq> None then j else j\<lparr>jw_w := jw_w j @ b\<rparr>)"
  by (simp add: WriteLiteral_def bytes_Buffer_Write_def)

lemma Comma_ok:
  "jw_err (Comma bytes_Buffer_Write j) = None \<Longrightarrow>
   jw_err j = None \<and> jw_w (Comma bytes_Buffer_Write j) = jw_w j @ '',''"
  by (simp add: Comma_def WriteLiteral_buffer split: if_splits)

lemma Field_Marshal_ok:
  assumes "jw_err (Marshal E bytes_Buffer_Write v (Field E bytes_Buffer_Write name j)) = None"
  shows "\<exists>kv. encodes E (name, v) kv \<and> jw_err j = None
           \<and> jw_w (Marshal E bytes_Buffer_Write v (Field E bytes_Buffer_Write name j))
               = jw_w j @ field_text kv"
proof -
  let ?f = "Field E bytes_Buffer_Write name j"
  from assms have f: "jw_err ?f = None"
    by (auto simp: Marshal_def WriteLiteral_buffer split: if_splits sum.splits)
  then have j: "jw_err j = None"
    by (auto simp: Field_def WriteLiteral_buffer split: if_splits sum.splits)
  from f j obtain k where k: "json_Marshal E (JString name) = Inr k" "jw_w ?f = jw_w j @ k @ '': ''"
    by (auto simp: Field_def WriteLiteral_buffer split: if_splits sum.splits)
  from assms f obtain b where b: "json_Marshal E v = Inr b"
    "jw_w (Marshal E bytes_Buffer_Write v ?f) = jw_w ?f @ b"
    by (auto simp: Marshal_def WriteLiteral_buffer split: if_splits sum.splits)
  show ?thesis
    apply (rule exI[of _ "(k, b)"])
    using k b j by (simp add: encodes_def field_text_def)
qed

lemma join_with_around:
  "join_with sep (xs @ [x] @ ys) =
     concat (map (\<lambda>a. a @ sep) xs) @ x @ concat (map (\<lambda>a. sep @ a) ys)"
proof (induction xs)
  case Nil
  show ?case
  proof (induction ys arbitrary: x)
    case Nil
    then show ?case by simp
  next
    case (Cons y ys)
    from Cons[of y] show ?case by simp
  qed
next
  case (Cons a xs)
  then show ?case by (cases xs) auto
qed

lemma leading_field:
  assumes "jw_err (if c then j
                    else Comma bytes_Buffer_Write
                           (Marshal E bytes_Buffer_Write v (Field E bytes_Buffer_Write name j))) = None"
  shows "\<exists>kvs. list_all2 (encodes E) (if c then [] else [(name, v)]) kvs \<and> jw_err j = None
           \<and> jw_w (if c then j
                    else Comma bytes_Buffer_Write
                           (Marshal E bytes_Buffer_Write v (Field E bytes_Buffer_Write name j)))
               = jw_w j @ concat (map (\<lambda>a. a @ '','') (map field_text kvs))"
proof (cases c)
  case True
  with assms show ?thesis by simp
next
  case False
  let ?m = "Marshal E bytes_Buffer_Write v (Field E bytes_Buffer_Write name j)"
  from False assms have c: "jw_err (Comma bytes_Buffer_Write ?m) = None" by simp
  from Comma_ok[OF c] have m: "jw_err ?m = None"
    and w: "jw_w (Comma bytes_Buffer_Write ?m) = jw_w ?m @ '',''" by simp_all
  from Field_Marshal_ok[OF m] obtain kv where
    "encodes E (name, v) kv" "jw_err j = None" "jw_w ?m = jw_w j @ field_text kv" by blast
  with False w show ?thesis
    by (intro exI[of _ "[kv]"]) simp
qed

lemma trailing_field:
  assumes "jw_err (if c then j
                    else Marshal E bytes_Buffer_Write v
                           (Field E bytes_Buffer_Write name (Comma bytes_Buffer_Write j))) = None"
  shows "\<exists>kvs. list_all2 (encodes E) (if c then [] else [(name, v)]) kvs \<and> jw_err j = None
           \<and> jw_w (if c then j
                    else Marshal E bytes_Buffer_Write v
                           (Field E bytes_Buffer_Write name (Comma bytes_Buffer_Write j)))
               = jw_w j @ concat (map (\<lambda>a. '','' @ a) (map field_text kvs))"
proof (cases c)
  case True
  with assms show ?thesis by simp
next
  case False
  let ?c = "Comma bytes_Buffer_Write j"
  let ?m = "Marshal E bytes_Buffer_Write v (Field E bytes_Buffer_Write name ?c)"
  from False assms have m: "jw_err ?m = None" by simp
  from Field_Marshal_ok[OF m] obtain kv where kv:
    "encodes E (name, v) kv" "jw_err ?c = None" "jw_w ?m = jw_w ?c @ field_text kv" by blast
  from Comma_ok[OF kv(2)] have "jw_err j = None" "jw_w ?c = jw_w j @ '',''" by simp_all
  with False kv show ?thesis
    by (intro exI[of _ "[kv]"]) simp
qed

lemma emitted_field_names:
  "''Effect'' \<in> fst ` set (emitted_fields E s)"
  "''Action'' \<in> fst ` set (emitted_fields E s) \<longleftrightarrow> \<not> stringorslice_IsEmpty E (Action s)"
  "''Condition'' \<in> fst ` set (emitted_fields E s) \<longleftrightarrow> Condition s \<noteq> []"
  "''Principal'' \<in> fst ` set (emitted_fields E s) \<longleftrightarrow> \<not> Principal_IsEmpty (Principal s)"
  "''Resource'' \<in> fst ` set (emitted_fields E s) \<longleftrightarrow> \<not> stringorslice_IsEmpty E (Resource s)"
  by (simp_all add: emitted_fields_def)

lemma MarshalJSON_text:
  assumes ok: "snd (MarshalJSON E s) = None"
  shows "\<exists>kvs. list_all2 (encodes E) (emitted_fields E s) kvs
           \<and> fst (MarshalJSON E s) = object_text kvs"
proof -
  let ?wr = "bytes_Buffer_Write"
  define jw1 :: "string jsonWriter" where "jw1 = StartObject ?wr \<lparr>jw_w = [], jw_err = None\<rparr>"
  define jw2 where "jw2 = (if stringorslice_IsEmpty E (Action s) then jw1
       else Comma ?wr (Marshal E ?wr (JStringOrSlice (Action s)) (Field E ?wr ''Action'' jw1)))"
  define jw3 where "jw3 = (if Condition s = [] then jw2
       else Comma ?wr (Marshal E ?wr (JCondition (Condition s)) (Field E ?wr ''Condition'' jw2)))"
  define jw4 where "jw4 = Marshal E ?wr (JEffect (Effect s)) (Field E ?wr ''Effect'' jw3)"
  define jw5 where "jw5 = (if Principal_IsEmpty (Principal s) then jw4
       else Marshal E ?wr (JPrincipal (Principal s)) (Field E ?wr ''Principal'' (Comma ?wr jw4)))"
  define jw6 where "jw6 = (if stringorslice_IsEmpty E (Resource s) then jw5
       else Marshal E ?wr (JStringOrSlice (Resource s)) (Field E ?wr ''Resource'' (Comma ?wr jw5)))"
  define jw7 where "jw7 = EndObject ?wr jw6"
  have res: "MarshalJSON E s = (jw_w jw7, jw_err jw7)"
    unfolding MarshalJSON_def Let_def jw_Error_def jw7_def jw6_def jw5_def jw4_def jw3_def
      jw2_def jw1_def
    by (simp cong: if_cong)
  have w1: "jw_w jw1 = ''{''"
    by (simp add: jw1_def StartObject_def WriteLiteral_buffer)
  from ok res have e7: "jw_err jw7 = None" by simp
  then have e6: "jw_err jw6 = None" and w7: "jw_w jw7 = jw_w jw6 @ ''}''"
    by (simp_all add: jw7_def EndObject_def WriteLiteral_buffer split: if_splits)
  from trailing_field[OF e6[unfolded jw6_def], folded jw6_def] obtain rs where rs:
    "list_all2 (encodes E)
       (if stringorslice_IsEmpty E (Resource s) then [] else [(''Resource'', JStringOrSlice (Resource s))]) rs"
    "jw_err jw5 = None"
    "jw_w jw6 = jw_w jw5 @ concat (map (\<lambda>a. '','' @ a) (map field_text rs))"
    by blast
  from trailing_field[OF rs(2)[unfolded jw5_def], folded jw5_def] obtain ps where ps:
    "list_all2 (encodes E)
       (if Principal_IsEmpty (Principal s) then [] else [(''Principal'', JPrincipal (Principal s))]) ps"
    "jw_err jw4 = None"
    "jw_w jw5 = jw_w jw4 @ concat (map (\<lambda>a. '','' @ a) (map field_text ps))"
    by blast
  from Field_Marshal_ok[OF ps(2)[unfolded jw4_def], folded jw4_def] obtain ef where ef:
    "encodes E (''Effect'', JEffect (Effect s)) ef" "jw_err jw3 = None"
    "jw_w jw4 = jw_w jw3 @ field_text ef"
    by blast
  from leading_field[OF ef(2)[unfolded jw3_def], folded jw3_def] obtain cs where cs:
    "list_all2 (encodes E)
       (if Condition s = [] then [] else [(''Condition'', JCondition (Condition s))]) cs"
    "jw_err jw2 = None"
    "jw_w jw3 = jw_w jw2 @ concat (map (\<lambda>a. a @ '','') (map field_text cs))"
    by blast
  from leading_field[OF cs(2)[unfolded jw2_def], folded jw2_def] obtain as where as:
    "list_all2 (encodes E)
       (if stringorslice_IsEmpty E (Action s) then [] else [(''Action'', JStringOrSlice (Action s))]) as"
    "jw_err jw1 = None"
    "jw_w jw2 = jw_w jw1 @ concat (map (\<lambda>a. a @ '','') (map field_text as))"
    by blast
  let ?kvs = "as @ cs @ [ef] @ ps @ rs"
  have "list_all2 (encodes E) [(''Effect'', JEffect (Effect s))] [ef]"
    using ef(1) by simp
  then have enc: "list_all2 (encodes E) (emitted_fields E s) ?kvs"
    unfolding emitted_fields_def
    by (intro list_all2_appendI as(1) cs(1) ps(1) rs(1))
  have "jw_w jw7 = ''{'' @ concat (map (\<lambda>a. a @ '','') (map field_text (as @ cs)))
                     @ field_text ef
                     @ concat (map (\<lambda>a. '','' @ a) (map field_text (ps @ rs))) @ ''}''"
    using w7 rs(3) ps(3) ef(3) cs(3) as(3) w1 by simp
  also have "\<dots> = object_text ?kvs"
  proof -
    have m: "map field_text ?kvs
               = map field_text (as @ cs) @ [field_text ef] @ map field_text (ps @ rs)"
      by simp
    show ?thesis
      by (simp only: object_text_def m join_with_around append_assoc)
  qed
  finally have "fst (MarshalJSON E s) = object_text ?kvs" using res by simp
  with enc show ?thesis by blast
qed

lemma Comma_err: "jw_err (Comma bytes_Buffer_Write j) = jw_err j"
  by (simp add: Comma_def WriteLiteral_buffer)

lemma Field_Marshal_runs:
  assumes "jw_err j = None" and "\<exists>kv. encodes E (name, v) kv"
  shows "jw_err (Marshal E bytes_Buffer_Write v (Field E bytes_Buffer_Write name j)) = None"
  using assms by (auto simp: encodes_def Marshal_def Field_def WriteLiteral_buffer)

lemma MarshalJSON_succeeds:
  assumes "\<forall>f\<in>set (emitted_fields E s). \<exists>kv. encodes E f kv"
  shows "snd (MarshalJSON E s) = None"
proof -
  let ?wr = "bytes_Buffer_Write"
  have start: "jw_err (StartObject ?wr \<lparr>jw_w = [], jw_err = None\<rparr>) = None"
    by (simp add: StartObject_def WriteLiteral_buffer)
  have "end": "jw_err (EndObject ?wr j) = jw_err j" for j :: "string jsonWriter"
    by (simp add: EndObject_def WriteLiteral_buffer)
  from assms have enc:
    "\<not> stringorslice_IsEmpty E (Action s) \<Longrightarrow> \<exists>kv. encodes E (''Action'', JStringOrSlice (Action s)) kv"
    "Condition s \<noteq> [] \<Longrightarrow> \<exists>kv. encodes E (''Condition'', JCondition (Condition s)) kv"
    "\<exists>kv. encodes E (''Effect'', JEffect (Effect s)) kv"
    "\<not> Principal_IsEmpty (Principal s) \<Longrightarrow> \<exists>kv. encodes E (''Principal'', JPrincipal (Principal s)) kv"
    "\<not> stringorslice_IsEmpty E (Resource s) \<Longrightarrow> \<exists>kv. encodes E (''Resource'', JStringOrSlice (Resource s)) kv"
    by (simp_all add: emitted_fields_def)
  define jw1 :: "string jsonWriter" where "jw1 = StartObject ?wr \<lparr>jw_w = [], jw_err = None\<rparr>"
  define jw2 where "jw2 = (if \<not> stringorslice_IsEmpty E (Action s)
       then Comma ?wr (Marshal E ?wr (JStringOrSlice (Action s)) (Field E ?wr ''Action'' jw1))
       else jw1)"
  define jw3 where "jw3 = (if Condition s \<noteq> []
       then Comma ?wr (Marshal E ?wr (JCondition (Condition s)) (Field E ?wr ''Condition'' jw2))
       else jw2)"
  define jw4 where "jw4 = Marshal E ?wr (JEffect (Effect s)) (Field E ?wr ''Effect'' jw3)"
  define jw5 where "jw5 = (if \<not> Principal_IsEmpty (Principal s)
       then Marshal E ?wr (JPrincipal (Principal s)) (Field E ?wr ''Principal'' (Comma ?wr jw4))
       else jw4)"
  define jw6 where "jw6 = (if \<not> stringorslice_IsEmpty E (Resource s)
       then Marshal E ?wr (JStringOrSlice (Resource s)) (Field E ?wr ''Resource'' (Comma ?wr jw5))
       else jw5)"
  have res: "snd (MarshalJSON E s) = jw_err (EndObject ?wr jw6)"
    unfolding MarshalJSON_def Let_def jw_Error_def jw6_def jw5_def jw4_def jw3_def jw2_def jw1_def
    by simp
  have 1: "jw_err jw1 = None" using start by (simp add: jw1_def)
  have 2: "jw_err jw2 = None"
    using 1 enc(1) by (simp add: jw2_def Comma_err Field_Marshal_runs)
  have 3: "jw_err jw3 = None"
    using 2 enc(2) by (simp add: jw3_def Comma_err Field_Marshal_runs)
  have 4: "jw_err jw4 = None"
    using 3 enc(3) by (simp add: jw4_def Field_Marshal_runs)
  have 5: "jw_err jw5 = None"
    using 4 enc(4) by (simp add: jw5_def Comma_err Field_Marshal_runs)
  have 6: "jw_err jw6 = None"
    using 5 enc(5) by (simp add: jw6_def Comma_err Field_Marshal_runs)
  show ?thesis
    using 6 by (simp add: res "end")
qed

lemma MarshalJSON_ok_iff:
  "(snd (MarshalJSON E s) = None) = (\<forall>f\<in>set (emitted_fields E s). \<exists>kv. encodes E f kv)"
proof
  assume "snd (MarshalJSON E s) = None"
  from MarshalJSON_text[OF this] obtain kvs where
    "list_all2 (encodes E) (emitted_fields E s) kvs" by blast
  then show "\<forall>f\<in>set (emitted_fields E s). \<exists>kv. encodes E f kv"
    by (metis in_set_conv_nth list_all2_conv_all_nth)
next
  assume "\<forall>f\<in>set (emitted_fields E s). \<exists>kv. encodes E f kv"
  then show "snd (MarshalJSON E s) = None" by (rule MarshalJSON_succeeds)
qed

text \<open>
  C10. \<open>MarshalJSON\<close> returns a nil error exactly when \<open>json.Marshal\<close> encodes the
  name and the value of every field to emit. Then the bytes it returns are the object
  made of the emitted fields, each encoded by \<open>json.Marshal\<close>, in the order Action,
  Condition, Effect, Principal, Resource. \<open>Effect\<close> is always among the emitted fields
  (also when it is the empty string); \<open>Action\<close>, \<open>Condition\<close>, \<open>Principal\<close> and
  \<open>Resource\<close> are among them if and only if they are not empty.
\<close>

theorem MarshalJSON_emits_nonempty_fields:
  "(snd (MarshalJSON E s) = None) = (\<forall>f\<in>set (emitted_fields E s). \<exists>kv. encodes E f kv)
   \<and> (snd (MarshalJSON E s) = None \<longrightarrow>
        (\<exists>kvs. list_all2 (encodes E) (emitted_fields E s) kvs
            \<and> fst (MarshalJSON E s) = object_text kvs))
   \<and> ''Effect'' \<in> fst ` set (emitted_fields E s)
   \<and> (''Action'' \<in> fst ` set (emitted_fields E s)) = (\<not> stringorslice_IsEmpty E (Action s))
   \<and> (''Condition'' \<in> fst ` set (emitted_fields E s)) = (Condition s \<noteq> [])
   \<and> (''Principal'' \<in> fst ` set (emitted_fields E s)) = (\<not> Principal_IsEmpty (Principal s))
   \<and> (''Resource'' \<in> fst ` set (emitted_fields E s)) = (\<not> stringorslice_IsEmpty E (Resource s))"
  using MarshalJSON_ok_iff[of E s] MarshalJSON_text[of E s] emitted_field_names[of E s] by blast

text \<open>The theorem at the statement that grants \<open>s3:Get*\<close>, with the plain encoder.\<close>

theorem MarshalJSON_emits_nonempty_fields_witness:
  \<open>snd (MarshalJSON plain_env s3_get_statement) = None
   \<and> fst (MarshalJSON plain_env s3_get_statement)
        = ''{"Action": "s3:Get*","Effect": "Allow","Resource": "arn:aws:s3:::bucket/*"}''
   \<and> ''Effect'' \<in> fst ` set (emitted_fields plain_env s3_get_statement)
   \<and> ''Principal'' \<notin> fst ` set (emitted_fields plain_env s3_get_statement)\<close>
proof -
  have ok: "snd (MarshalJSON plain_env s3_get_statement) = None"
    by code_simp
  have out: \<open>fst (MarshalJSON plain_env s3_get_statement)
        = ''{"Action": "s3:Get*","Effect": "Allow","Resource": "arn:aws:s3:::bucket/*"}''\<close>
    by code_simp
  have p: "Principal_IsEmpty (Principal s3_get_statement)"
    by (simp add: Principal_IsEmpty_def s3_get_statement_def)
  from MarshalJSON_emits_nonempty_fields[of plain_env s3_get_statement] p
  have "''Effect'' \<in> fst ` set (emitted_fields plain_env s3_get_statement)
     \<and> ''Principal'' \<notin> fst ` set (emitted_fields plain_env s3_get_statement)"
    by blast
  with ok out show ?thesis by blast
qed

end
